theory Spec2Isabelle
  imports Complex_Main
begin

section \<open>Python and numpy values\<close>

text \<open>
  Exceptions of the source are values. \<open>TransformCountMismatch\<close> is the
  \<open>Exception('number of transforms does not match number of b0 images')\<close> of
  \<open>match_transforms\<close>, \<open>BvecFormatError\<close> the
  \<open>ValueError("Unrecognized bvec format")\<close> of \<open>ConformDwi\<close>; the others are the
  exceptions Python and numpy raise themselves.
\<close>

datatype error =
    TransformCountMismatch
  | BvecFormatError
  | ValueError
  | AssertionError
  | AttributeError
  | IndexError
  | RuntimeError
  | TypeError

section \<open>Transform matching (gradients.py, \<open>match_transforms\<close>)\<close>

text \<open>
  \<open>np.argmin\<close> of a one-dimensional array: the index of the first occurrence of the
  minimum; on an empty array numpy raises \<open>ValueError\<close>
  (attempt to get argmin of an empty sequence).
\<close>

fun argmin_from :: "int list \<Rightarrow> nat \<Rightarrow> int \<Rightarrow> nat \<Rightarrow> nat" where
  "argmin_from [] i best best_i = best_i"
| "argmin_from (x # xs) i best best_i =
     (if x < best then argmin_from xs (Suc i) x i else argmin_from xs (Suc i) best best_i)"

fun argmin :: "int list \<Rightarrow> error + nat" where
  "argmin [] = Inl ValueError"
| "argmin (x # xs) = Inr (argmin_from xs 1 x 0)"

text \<open>Indexing a Python list with a non-negative index.\<close>

definition list_get :: "'a list \<Rightarrow> nat \<Rightarrow> error + 'a" where
  "list_get xs i = (if i < length xs then Inr (xs ! i) else Inl IndexError)"

text \<open>
  The loop \<open>for index in range(num_dwis)\<close> of \<open>match_transforms\<close>, over the indices still
  to visit, with the list \<open>nearest_affines\<close> built so far.
\<close>

fun nearest_loop :: "'t list \<Rightarrow> int list \<Rightarrow> nat list \<Rightarrow> 't list \<Rightarrow> error + 't list" where
  "nearest_loop transforms original_b0_indices [] nearest_affines = Inr nearest_affines"
| "nearest_loop transforms original_b0_indices (index # rest) nearest_affines =
     (case argmin (map (\<lambda>b. \<bar>int index - b\<bar>) original_b0_indices) of
        Inl e \<Rightarrow> Inl e
      | Inr nearest_b0_num \<Rightarrow>
          (case list_get transforms nearest_b0_num of
             Inl e \<Rightarrow> Inl e
           | Inr this_transform \<Rightarrow>
               nearest_loop transforms original_b0_indices rest
                 (nearest_affines @ [this_transform])))"

definition match_transforms :: "'f list \<Rightarrow> 't list \<Rightarrow> int list \<Rightarrow> error + 't list" where
  "match_transforms dwi_files transforms b0_indices =
     (let num_dwis = length dwi_files; num_transforms = length transforms in
      if num_dwis = num_transforms then Inr transforms
      else if \<not> length transforms = length b0_indices then Inl TransformCountMismatch
      else nearest_loop transforms b0_indices [0..<num_dwis] [])"

text \<open>
  \<open>closest_b0 b0 i j\<close>: position \<open>j\<close> of the b0 list holds an index at minimal
  distance from the volume index \<open>i\<close>, and every earlier position is strictly farther.
\<close>

definition closest_b0 :: "int list \<Rightarrow> nat \<Rightarrow> nat \<Rightarrow> bool" where
  "closest_b0 b0 i j \<longleftrightarrow>
     j < length b0
     \<and> (\<forall>k<length b0. \<bar>int i - b0 ! j\<bar> \<le> \<bar>int i - b0 ! k\<bar>)
     \<and> (\<forall>k<j. \<bar>int i - b0 ! j\<bar> < \<bar>int i - b0 ! k\<bar>)"

section \<open>File names\<close>

text \<open>
  Python's \<open>"%03d" % n\<close> and \<open>"%04d" % n\<close>: the decimal digits of \<open>n\<close>, padded with
  zeros on the left up to the width.
\<close>

fun decimal :: "nat \<Rightarrow> string" where
  "decimal n =
     (if n < 10 then [''0123456789'' ! n]
      else decimal (n div 10) @ [''0123456789'' ! (n mod 10)])"

declare decimal.simps [simp del]

definition zero_padded :: "nat \<Rightarrow> nat \<Rightarrow> string" where
  "zero_padded width n = replicate (width - length (decimal n)) (CHR ''0'') @ decimal n"

section \<open>RPE concatenation (images.py, \<open>ConcatRPESplits._run_interface\<close>)\<close>

text \<open>
  The inputs of the interface, as the caller sets them. A warp that is not defined
  (nipype's \<open>Undefined\<close>) is \<open>None\<close>.
\<close>

record ConcatRPESplits_inputs =
  dwi_plus :: "string list"
  bvec_plus :: "string list"
  bval_plus :: "string list"
  b0_images_plus :: "string list"
  b0_indices_plus :: "int list"
  hmc_affines_plus :: "string list"
  hmc_affines_minus :: "string list"
  template_plus_to_ref_affine :: string
  template_plus_to_ref_warp :: "string option"
  dwi_minus :: "string list"
  bvec_minus :: "string list"
  bval_minus :: "string list"
  b0_images_minus :: "string list"
  b0_indices_minus :: "int list"
  template_minus_to_ref_affine :: string
  template_minus_to_ref_warp :: "string option"
  b0_ref_image :: string
  b0_ref_mask :: string

text \<open>
  The input specification declares every file list with \<open>OutputMultiObject\<close>. Reading
  such a trait gives \<open>Undefined\<close> for an empty list, the entry itself for a list of
  one entry, and the list otherwise. The value read is therefore a string or a list.
\<close>

datatype multi_object = Undefined | Single string | Many "string list"

fun get_multi :: "string list \<Rightarrow> multi_object" where
  "get_multi [] = Undefined"
| "get_multi [entry] = Single entry"
| "get_multi entries = Many entries"

text \<open>
  Python's \<open>len\<close>, \<open>+\<close> and iteration on these values: the length of a string is its
  number of characters, two strings are joined, two lists are appended, a string and a
  list cannot be added, iterating a string yields its characters, and \<open>Undefined\<close>
  supports none of the three. Each failure is a \<open>TypeError\<close>.
\<close>

fun py_len :: "multi_object \<Rightarrow> error + nat" where
  "py_len Undefined = Inl TypeError"
| "py_len (Single s) = Inr (length s)"
| "py_len (Many entries) = Inr (length entries)"

fun py_add :: "multi_object \<Rightarrow> multi_object \<Rightarrow> error + multi_object" where
  "py_add (Single s) (Single t) = Inr (Single (s @ t))"
| "py_add (Many xs) (Many ys) = Inr (Many (xs @ ys))"
| "py_add x y = Inl TypeError"

fun py_iter :: "multi_object \<Rightarrow> error + string list" where
  "py_iter Undefined = Inl TypeError"
| "py_iter (Single s) = Inr (map (\<lambda>c. [c]) s)"
| "py_iter (Many entries) = Inr entries"

text \<open>A statement that may raise, followed by the rest of the function.\<close>

definition bind :: "error + 'a \<Rightarrow> ('a \<Rightarrow> error + 'b) \<Rightarrow> error + 'b" where
  "bind r f = (case r of Inl e \<Rightarrow> Inl e | Inr x \<Rightarrow> f x)"

text \<open>The entries of \<open>self._results\<close>, each under its key with the prefix \<open>rpe_\<close>.\<close>

record 'a ConcatRPESplits_results =
  rpe_b0_ref_image :: string
  rpe_b0_ref_mask :: string
  rpe_dwi_files :: multi_object
  rpe_bval_files :: multi_object
  rpe_bvec_files :: multi_object
  rpe_b0_images :: multi_object
  rpe_b0_indices :: "int list"
  rpe_original_grouping :: "string list"
  rpe_to_dwi_ref_warps :: "string list option"
  rpe_to_dwi_ref_affines :: "'a list"

text \<open>
  \<open>compose_affines\<close> is imported from the module \<open>.itk\<close> and runs an external tool; it is
  a parameter here, applied to the reference image, the affines to combine and the name
  of the output file. \<open>cwd\<close> is \<open>runtime.cwd\<close>. The statements follow the order of the
  source, so the first one that raises decides the exception.
\<close>

definition ConcatRPESplits_run ::
  "(string \<Rightarrow> string list \<Rightarrow> string \<Rightarrow> 'a) \<Rightarrow> string \<Rightarrow> ConcatRPESplits_inputs
     \<Rightarrow> error + 'a ConcatRPESplits_results" where
  "ConcatRPESplits_run compose_affines cwd inputs =
     (let plus_images = get_multi (dwi_plus inputs);
          plus_bvecs = get_multi (bvec_plus inputs);
          plus_bvals = get_multi (bval_plus inputs);
          plus_b0_images = get_multi (b0_images_plus inputs);
          plus_b0_indices = b0_indices_plus inputs;
          plus_hmc_affines = get_multi (hmc_affines_plus inputs);
          plus_hmc_to_ref_affine = template_plus_to_ref_affine inputs;
          minus_images = get_multi (dwi_minus inputs);
          minus_bvecs = get_multi (bvec_minus inputs);
          minus_bvals = get_multi (bval_minus inputs);
          minus_b0_images = get_multi (b0_images_minus inputs);
          minus_b0_indices = b0_indices_minus inputs;
          minus_hmc_affines = get_multi (hmc_affines_minus inputs);
          minus_hmc_to_ref_affine = template_minus_to_ref_affine inputs
      in bind (py_len plus_images) (\<lambda>num_plus.
         bind (py_len minus_images) (\<lambda>num_minus.
         bind (py_add plus_images minus_images) (\<lambda>dwi_files.
         bind (py_add plus_bvals minus_bvals) (\<lambda>bval_files.
         bind (py_add plus_bvecs minus_bvecs) (\<lambda>bvec_files.
         bind (py_add plus_b0_images minus_b0_images) (\<lambda>b0_images.
         bind (py_iter plus_hmc_affines) (\<lambda>plus_affines.
         bind (py_iter minus_hmc_affines) (\<lambda>minus_affines.
           Inr \<lparr> rpe_b0_ref_image = b0_ref_image inputs,
                 rpe_b0_ref_mask = b0_ref_mask inputs,
                 rpe_dwi_files = dwi_files,
                 rpe_bval_files = bval_files,
                 rpe_bvec_files = bvec_files,
                 rpe_b0_images = b0_images,
                 rpe_b0_indices =
                   plus_b0_indices @ map (\<lambda>idx. int num_plus + idx) minus_b0_indices,
                 rpe_original_grouping =
                   replicate num_plus ''plus'' @ replicate num_minus ''minus'',
                 rpe_to_dwi_ref_warps =
                   (case (template_plus_to_ref_warp inputs,
                          template_minus_to_ref_warp inputs) of
                      (Some plus_hmc_to_ref_warp, Some minus_hmc_to_ref_warp) \<Rightarrow>
                        Some (replicate num_plus plus_hmc_to_ref_warp
                              @ replicate num_minus minus_hmc_to_ref_warp)
                    | _ \<Rightarrow> None),
                 rpe_to_dwi_ref_affines =
                   map (\<lambda>(affine_num, hmc_aff_plus).
                          compose_affines (b0_ref_image inputs)
                            [plus_hmc_to_ref_affine, hmc_aff_plus]
                            (cwd @ ''/combined_hmc_affine_plus_''
                               @ zero_padded 3 affine_num @ ''.mat''))
                       (enumerate 0 plus_affines)
                   @ map (\<lambda>(affine_num, hmc_aff_minus).
                          compose_affines (b0_ref_image inputs)
                            [minus_hmc_to_ref_affine, hmc_aff_minus]
                            (cwd @ ''/combined_hmc_affine_minus_''
                               @ zero_padded 3 affine_num @ ''.mat''))
                       (enumerate 0 minus_affines) \<rparr>)))))))))"

section \<open>Composite transform builder (gradients.py, \<open>ComposeTransforms._run_interface\<close>)\<close>

text \<open>
  The step up to \<open>self._results['transform_lists'] = xfms_list\<close>: the stages, their
  names, the two assertions and the chain of every volume. What follows in the source
  hands each chain to an external resampling tool. An input that is not defined is
  \<open>None\<close>.
\<close>

fun collect :: "(error + 'a) list \<Rightarrow> error + 'a list" where
  "collect [] = Inr []"
| "collect (Inl e # rs) = Inl e"
| "collect (Inr x # rs) = (case collect rs of Inl e \<Rightarrow> Inl e | Inr xs \<Rightarrow> Inr (x # xs))"

definition add_sdc_unwarp ::
  "nat \<Rightarrow> string list option \<Rightarrow> string list list \<times> string list
     \<Rightarrow> string list list \<times> string list" where
  "add_sdc_unwarp num_dwis fieldwarps stages =
     (case fieldwarps of
        None \<Rightarrow> stages
      | Some sdc_unwarp \<Rightarrow>
          if length sdc_unwarp = num_dwis
          then (fst stages @ [sdc_unwarp], snd stages @ [''fieldwarp''])
          else if length sdc_unwarp = 1
          then (fst stages @ [concat (replicate num_dwis sdc_unwarp)],
                snd stages @ [''fieldwarp''])
          else stages)"

definition add_mni_xform ::
  "nat \<Rightarrow> string list option \<Rightarrow> string list list \<times> string list
     \<Rightarrow> error + string list list \<times> string list" where
  "add_mni_xform num_dwis t1_2_mni_forward_transform stages =
     (case t1_2_mni_forward_transform of
        None \<Rightarrow> Inr stages
      | Some mni_xform \<Rightarrow>
          if length mni_xform \<noteq> 2 then Inl AssertionError
          else Inr (fst stages @ [replicate num_dwis (mni_xform ! 0),
                                  replicate num_dwis (mni_xform ! 1)],
                    snd stages @ [''mni affine'', ''mni warp'']))"

definition ComposeTransforms_transform_lists ::
  "string list \<Rightarrow> int list \<Rightarrow> string list \<Rightarrow> string list option \<Rightarrow> string
     \<Rightarrow> string list option \<Rightarrow> error + string list list \<times> string list" where
  "ComposeTransforms_transform_lists dwi_files original_b0_indices hmc_to_ref_affines
       fieldwarps unwarped_dwi_ref_to_t1w_affine t1_2_mni_forward_transform =
     (let num_dwis = length dwi_files in
      case match_transforms dwi_files hmc_to_ref_affines original_b0_indices of
        Inl e \<Rightarrow> Inl e
      | Inr dwi_hmc_affines \<Rightarrow>
          (let stages = add_sdc_unwarp num_dwis fieldwarps ([dwi_hmc_affines], [''hmc'']);
               stages = (fst stages @ [replicate num_dwis unwarped_dwi_ref_to_t1w_affine],
                         snd stages @ [''b0 to t1''])
           in case add_mni_xform num_dwis t1_2_mni_forward_transform stages of
                Inl e \<Rightarrow> Inl e
              | Inr (image_transforms, image_transform_names) \<Rightarrow>
                  if \<not> list_all (\<lambda>xform_list. length xform_list = length (image_transforms ! 0))
                         image_transforms
                  then Inl AssertionError
                  else
                    (case collect (map (\<lambda>image_num.
                              collect (map (\<lambda>xfm. list_get xfm image_num)
                                         (rev image_transforms)))
                            [0..<num_dwis]) of
                       Inl e \<Rightarrow> Inl e
                     | Inr xfms_list \<Rightarrow> Inr (xfms_list, image_transform_names))))"

section \<open>Intra-modal merge (images.py, \<open>IntraModalMerge._run_interface\<close>)\<close>

text \<open>
  Files are named by how they come to be: an input of the step, the file \<open>reorient\<close>
  writes for a file (suffix \<open>_lps\<close>), the file that holds the squeezed data of a file
  (suffix \<open>_squeezed\<close>), and the \<open>merged_file\<close> that the external merge tool returns
  for the list of files it is given.
\<close>

datatype image_file =
    Input string
  | Lps image_file
  | Squeezed image_file
  | Merged "image_file list"

text \<open>
  What the step does with its files: either it passes one file through as \<open>out_file\<close>
  and \<open>out_avg\<close> and returns, or it runs the motion correction tool on \<open>in_file\<close>.
\<close>

datatype merge_outcome =
    Passed_through image_file
  | MCFLIRT image_file

text \<open>
  \<open>ndim f\<close> is the number of dimensions of the data of \<open>f\<close>, \<open>squeezed_ndim f\<close> the
  number left by \<open>np.squeeze\<close>. The file written with the suffix \<open>_squeezed\<close> holds
  the squeezed data of the file it comes from, so squeezing it again leaves
  \<open>squeezed_ndim\<close> of that file. With no input file \<open>self.inputs.in_files[0]\<close> raises
  \<open>IndexError\<close>; an input that stays 5D raises \<open>RuntimeError\<close>.
\<close>

definition IntraModalMerge_run ::
  "(image_file \<Rightarrow> nat) \<Rightarrow> (image_file \<Rightarrow> nat) \<Rightarrow> bool \<Rightarrow> string list
     \<Rightarrow> error + merge_outcome" where
  "IntraModalMerge_run ndim squeezed_ndim to_lps inputs_in_files =
     (if inputs_in_files = [] then Inl IndexError
      else
        let in_files = map Input inputs_in_files;
            in_files = (if to_lps then map Lps in_files else in_files)
        in if length in_files = 1
           then
             (let file = in_files ! 0 in
              if ndim file = 5
              then (if squeezed_ndim file = 5 then Inl RuntimeError
                    else if squeezed_ndim file < 4 then Inr (Passed_through (Squeezed file))
                    else Inr (MCFLIRT (Squeezed file)))
              else if squeezed_ndim file < 4 then Inr (Passed_through file)
              else Inr (MCFLIRT file))
           else Inr (MCFLIRT (Merged (map Input inputs_in_files))))"

section \<open>Gradient vectors\<close>

text \<open>
  A row of the gradient table, as \<open>zip(original_bvecs, ...)\<close> yields it, and the test
  the source uses for a b0 direction, \<open>np.sum(original_bvec**2) == 0\<close>.
\<close>

definition sum_of_squares :: "real list \<Rightarrow> real" where
  "sum_of_squares v = sum_list (map (\<lambda>x. x * x) v)"

section \<open>Local gradient rotation (gradients.py, \<open>local_bvec_rotation\<close>)\<close>

text \<open>
  \<open>os.path.join(runtime.cwd, name)\<close> for a relative \<open>name\<close>.
\<close>

definition path_join :: "string \<Rightarrow> string \<Rightarrow> string" where
  "path_join dir name =
     (if dir = [] \<or> last dir = CHR ''/'' then dir @ name else dir @ ''/'' @ name)"

text \<open>
  The list \<open>rotated_vec_files\<close> holds the names \<open>out_fname\<close>, which are strings. The
  objects the final comprehension calls \<open>get_data()\<close> on are therefore strings; only an
  image object has that method.
\<close>

datatype 'c py_object = Str string | Image 'c

definition get_data :: "'c py_object \<Rightarrow> error + 'c" where
  "get_data obj = (case obj of Str s \<Rightarrow> Inl AttributeError | Image d \<Rightarrow> Inr d)"

text \<open>
  The state of the loop over the volumes: the files on disk (name to content), the list
  \<open>rotated_vec_files\<close> and the list \<open>commands\<close>.
\<close>

record 'c rotation_state =
  files :: "string \<rightharpoonup> 'c"
  rotated_vec_files :: "string list"
  commands :: "string list"

text \<open>
  One pass of the loop body for volume \<open>vecnum\<close>. For a b0 direction the all-zero image
  \<open>b0_image\<close> is written. Otherwise \<open>create_tensor_image\<close> and \<open>reorient_tensor_image\<close>
  run external tools and leave one new file, \<open>out_fname\<close>, whose content is the
  parameter \<open>rotated_field\<close> of the direction and the warp; their own temporary files
  are removed again before they return.
\<close>

definition rotate_volume ::
  "'c \<Rightarrow> (real list \<Rightarrow> string \<Rightarrow> 'c) \<Rightarrow> string \<Rightarrow> 'c rotation_state
     \<Rightarrow> nat \<times> real list \<times> string \<Rightarrow> 'c rotation_state" where
  "rotate_volume b0_image rotated_field prefix st item =
     (case item of (vecnum, original_bvec, warp_file) \<Rightarrow>
        let num_prefix = prefix @ zero_padded 3 vecnum @ ''_'';
            out_fname = num_prefix @ ''rotated.nii.gz''
        in if sum_of_squares original_bvec = 0
           then st\<lparr> files := (files st)(out_fname \<mapsto> b0_image),
                    rotated_vec_files := rotated_vec_files st @ [out_fname],
                    commands := commands st @ [''B0: No rotation''] \<rparr>
           else
             let tensor_fname = num_prefix @ ''_tensor.nii'';
                 reoriented_tensor_fname = num_prefix @ ''reoriented_tensor.nii'';
                 rotate_cmd = ''ReorientTensorImage 3 '' @ tensor_fname @ '' ''
                                @ reoriented_tensor_fname @ '' '' @ warp_file
             in st\<lparr> files := (files st)(out_fname \<mapsto> rotated_field original_bvec warp_file),
                      commands := commands st @ [rotate_cmd],
                      rotated_vec_files := rotated_vec_files st @ [out_fname] \<rparr>)"

text \<open>
  \<open>np.stack\<close> raises \<open>ValueError\<close> on an empty list; \<open>stack\<close> is the stacking of the
  arrays along a new last axis, cast to \<open>'<f4'\<close>.
\<close>

definition np_stack :: "('c list \<Rightarrow> 'c) \<Rightarrow> 'c list \<Rightarrow> error + 'c" where
  "np_stack stack arrays = (if arrays = [] then Inl ValueError else Inr (stack arrays))"

text \<open>
  The function returns its result, or the exception it raises, together with the files
  it leaves on disk.
\<close>

definition local_bvec_rotation ::
  "'c \<Rightarrow> (real list \<Rightarrow> string \<Rightarrow> 'c) \<Rightarrow> ('c list \<Rightarrow> 'c) \<Rightarrow> (string \<rightharpoonup> 'c)
     \<Rightarrow> real list list \<Rightarrow> string list \<Rightarrow> string \<Rightarrow> string
     \<Rightarrow> (error + string list \<times> string list) \<times> (string \<rightharpoonup> 'c)" where
  "local_bvec_rotation b0_image rotated_field stack disk original_bvecs warp_transforms cwd
       output_fname =
     (let prefix = path_join cwd ''local_bvec_'';
          st = foldl (rotate_volume b0_image rotated_field prefix)
                 \<lparr> files = disk, rotated_vec_files = [], commands = [] \<rparr>
                 (enumerate 0 (zip original_bvecs warp_transforms))
      in case collect (map (\<lambda>img. get_data (Str img)) (rotated_vec_files st)) of
           Inl e \<Rightarrow> (Inl e, files st)
         | Inr arrays \<Rightarrow>
             (case np_stack stack arrays of
                Inl e \<Rightarrow> (Inl e, files st)
              | Inr concatenated \<Rightarrow>
                  (Inr (rotated_vec_files st, commands st),
                   foldl (\<lambda>fs temp_file. fs(temp_file := None))
                     ((files st)(output_fname \<mapsto> concatenated))
                     (rotated_vec_files st))))"

section \<open>Global gradient rotation (gradients.py, \<open>bvec_rotation\<close>)\<close>

type_synonym vec3 = "real \<times> real \<times> real"

text \<open>
  \<open>aattp_rotate_vec\<close>: a direction whose squared entries sum to zero is returned as it
  is. For any other direction the source writes two points, runs the external point
  transformation with the inverse of the transform and normalises the difference of the
  two points it reads back; that unit vector and the command line are the parameter
  \<open>ants_rotated\<close>, which stands for a run of the tool that wrote its output file.
\<close>

definition aattp_rotate_vec ::
  "(vec3 \<Rightarrow> string \<Rightarrow> vec3 \<times> string) \<Rightarrow> vec3 \<Rightarrow> string \<Rightarrow> vec3 \<times> string" where
  "aattp_rotate_vec ants_rotated orig_vec transform =
     (case orig_vec of (x, y, z) \<Rightarrow>
        if sum_of_squares [x, y, z] = 0 then (orig_vec, ''b0: No rotation'')
        else ants_rotated orig_vec transform)"

text \<open>
  \<open>np.row_stack\<close> of a list of 3-vectors: the array with these rows; numpy raises
  \<open>ValueError\<close> when the list is empty (need at least one array to concatenate).
\<close>

definition row_stack3 :: "vec3 list \<Rightarrow> error + vec3 list" where
  "row_stack3 rows = (if rows = [] then Inl ValueError else Inr rows)"

text \<open>
  The transposed array that \<open>np.savetxt\<close> writes: one line for each of x, y and z, one
  column for each row of the array.
\<close>

definition transposed :: "vec3 list \<Rightarrow> real list list" where
  "transposed rows = [map fst rows, map (fst \<circ> snd) rows, map (snd \<circ> snd) rows]"

text \<open>
  \<open>bvec_rotation\<close> returns the list of commands; the model returns with it the array
  \<open>rotated_vecs.T\<close> that \<open>np.savetxt\<close> prints to the output file, one line per row
  (format \<open>%.8f\<close>).
\<close>

definition bvec_rotation ::
  "(vec3 \<Rightarrow> string \<Rightarrow> vec3 \<times> string) \<Rightarrow> vec3 list \<Rightarrow> string list
     \<Rightarrow> error + real list list \<times> string list" where
  "bvec_rotation ants_rotated original_bvecs transforms =
     (let rotated = map (\<lambda>(bvec, transform). aattp_rotate_vec ants_rotated bvec transform)
                      (zip original_bvecs transforms);
          aattp_rotated = map fst rotated;
          commands = map snd rotated
      in case row_stack3 aattp_rotated of
           Inl e \<Rightarrow> Inl e
         | Inr rotated_vecs \<Rightarrow> Inr (transposed rotated_vecs, commands))"

section \<open>DWI conformation (images.py, \<open>ConformDwi._run_interface\<close>)\<close>

text \<open>
  The axis codes that \<open>nb.aff2axcodes\<close> yields for an affine, one per image axis.
\<close>

datatype axcode = AxL | AxR | AxP | AxA | AxI | AxS

text \<open>
  \<open>nibabel.orientations.axcodes2ornt\<close> with its default labels
  \<open>(('L','R'),('P','A'),('I','S'))\<close>: each code becomes the pair of the index of its
  label pair and the direction, \<open>-1\<close> for the first code of the pair and \<open>1\<close> for the second.
\<close>

fun axcode_ornt :: "axcode \<Rightarrow> nat \<times> real" where
  "axcode_ornt AxL = (0, -1)"
| "axcode_ornt AxR = (0, 1)"
| "axcode_ornt AxP = (1, -1)"
| "axcode_ornt AxA = (1, 1)"
| "axcode_ornt AxI = (2, -1)"
| "axcode_ornt AxS = (2, 1)"

definition axcodes2ornt :: "axcode list \<Rightarrow> (nat \<times> real) list" where
  "axcodes2ornt axcodes = map axcode_ornt axcodes"

text \<open>
  \<open>nibabel.orientations.ornt_transform\<close>. The inner loop looks for the first row of
  \<open>start_ornt\<close> with the output axis \<open>end_out_idx\<close>; the outer loop stores
  \<open>[end_in_idx, flip]\<close> at the row it found and raises \<open>ValueError\<close> when there is none.
  The result starts as \<open>np.empty_like(start_ornt)\<close>, whose rows hold arbitrary values:
  the parameter \<open>uninitialised\<close>.
\<close>

fun find_start_row :: "(nat \<times> real) list \<Rightarrow> nat \<Rightarrow> nat \<Rightarrow> (nat \<times> real) option" where
  "find_start_row [] end_out_idx start_in_idx = None"
| "find_start_row ((start_out_idx, start_flip) # rest) end_out_idx start_in_idx =
     (if end_out_idx = start_out_idx then Some (start_in_idx, start_flip)
      else find_start_row rest end_out_idx (Suc start_in_idx))"

fun ornt_transform_loop ::
  "(nat \<times> real) list \<Rightarrow> (nat \<times> nat \<times> real) list \<Rightarrow> (nat \<times> real) list
     \<Rightarrow> error + (nat \<times> real) list" where
  "ornt_transform_loop start_ornt [] result = Inr result"
| "ornt_transform_loop start_ornt ((end_in_idx, end_out_idx, end_flip) # rest) result =
     (case find_start_row start_ornt end_out_idx 0 of
        None \<Rightarrow> Inl ValueError
      | Some (start_in_idx, start_flip) \<Rightarrow>
          ornt_transform_loop start_ornt rest
            (result[start_in_idx := (end_in_idx, if start_flip = end_flip then 1 else -1)]))"

definition ornt_transform ::
  "nat \<times> real \<Rightarrow> (nat \<times> real) list \<Rightarrow> (nat \<times> real) list \<Rightarrow> error + (nat \<times> real) list" where
  "ornt_transform uninitialised start_ornt end_ornt =
     (if length start_ornt \<noteq> length end_ornt then Inl ValueError
      else ornt_transform_loop start_ornt (enumerate 0 end_ornt)
             (replicate (length start_ornt) uninitialised))"

text \<open>
  The file names of the step, by the variable of the source that holds each: the input
  volume \<open>fname\<close>, the \<open>.bvec\<close> and \<open>.bval\<close> files beside it, and the two files the step
  writes with the suffix \<open>_lps\<close>.
\<close>

datatype dwi_path = Fname | Bvec_fname | Bval_fname | Out_fname | Out_bvec_fname

text \<open>
  The results of the step and, with them, the array \<open>output_array\<close> that \<open>np.savetxt\<close>
  prints to \<open>out_bvec_fname\<close> (format \<open>%.8f\<close>) when the volume is reoriented. No other
  gradient file is written.
\<close>

record ConformDwi_results =
  dwi_file :: dwi_path
  bvec_file :: dwi_path
  bval_file :: dwi_path
  output_array :: "real list list option"

text \<open>
  \<open>input_axcodes\<close> is \<open>nb.aff2axcodes(input_img.affine)\<close> and \<open>bvec_array\<close> the array
  \<open>np.loadtxt(bvec_fname)\<close>, as the list of its entries along the first axis.
\<close>

definition ConformDwi_run ::
  "nat \<times> real \<Rightarrow> axcode list \<Rightarrow> real list list \<Rightarrow> error + ConformDwi_results" where
  "ConformDwi_run uninitialised input_axcodes bvec_array =
     (let new_axcodes = [AxL, AxP, AxS] in
      if \<not> input_axcodes = new_axcodes
      then
        (let input_orientation = axcodes2ornt input_axcodes;
             desired_orientation = axcodes2ornt new_axcodes
         in case ornt_transform uninitialised input_orientation desired_orientation of
              Inl e \<Rightarrow> Inl e
            | Inr transform_orientation \<Rightarrow>
                if \<not> length bvec_array = length transform_orientation
                then Inl BvecFormatError
                else
                  (case collect (map (\<lambda>(axnum, flip).
                            case list_get bvec_array axnum of
                              Inl e \<Rightarrow> Inl e
                            | Inr row \<Rightarrow> Inr (map (\<lambda>x. x * flip) row))
                          transform_orientation) of
                     Inl e \<Rightarrow> Inl e
                   | Inr flipped_rows \<Rightarrow>
                       Inr \<lparr> dwi_file = Out_fname, bvec_file = Out_bvec_fname,
                             bval_file = Bval_fname, output_array = Some flipped_rows \<rparr>))
      else Inr \<lparr> dwi_file = Fname, bvec_file = Bvec_fname,
                 bval_file = Bval_fname, output_array = None \<rparr>)"

text \<open>
  The reoriented table in the words of the specification: one pair (source axis, sign)
  per output axis. Row \<open>i\<close> of nibabel's orientation transform is the pair (output axis,
  flip) of input axis \<open>i\<close>, so the pair of an output axis is the input axis whose row
  names it, with the flip of that row. \<open>source_pair\<close> looks that row up and
  \<open>claimed_bvec_table\<close> builds the table row by row.
\<close>

fun source_pair :: "(nat \<times> real) list \<Rightarrow> nat \<Rightarrow> nat \<Rightarrow> (nat \<times> real) option" where
  "source_pair [] output_axis input_axis = None"
| "source_pair ((axis, flip) # rest) output_axis input_axis =
     (if axis = output_axis then Some (input_axis, flip)
      else source_pair rest output_axis (Suc input_axis))"

definition claimed_bvec_table :: "(nat \<times> real) list \<Rightarrow> real list list \<Rightarrow> real list list" where
  "claimed_bvec_table transform_orientation bvec_array =
     map (\<lambda>output_axis.
            case source_pair transform_orientation output_axis 0 of
              Some (source_axis, sign) \<Rightarrow> map (\<lambda>x. x * sign) (bvec_array ! source_axis)
            | None \<Rightarrow> [])
       [0..<length transform_orientation]"

section \<open>numpy arrays and text files\<close>

text \<open>
  Arrays of up to two dimensions: a zero-dimensional array, a one-dimensional array and
  a two-dimensional array as the list of its rows. Values are finite numbers.
\<close>

datatype ndarray = Scalar real | Vector "real list" | Matrix "real list list"

text \<open>
  A text file of numbers is the list of its lines, each line the list of the numbers on
  it. \<open>np.savetxt\<close> with its default format \<open>%.18e\<close> prints every value with 19
  significant digits, which \<open>np.loadtxt\<close> reads back to the same double, so a file
  written that way holds the values themselves. \<open>np.savetxt\<close> writes a one-dimensional
  array one value per line and refuses a zero-dimensional array with \<open>ValueError\<close>.
\<close>

type_synonym text_file = "real list list"

definition savetxt :: "ndarray \<Rightarrow> error + text_file" where
  "savetxt X =
     (case X of
        Scalar x \<Rightarrow> Inl ValueError
      | Vector xs \<Rightarrow> Inr (map (\<lambda>x. [x]) xs)
      | Matrix rows \<Rightarrow> Inr rows)"

text \<open>
  The format \<open>%i\<close> of Python prints a float as the integer it truncates to, towards
  zero. A file written with \<open>fmt="%i"\<close> holds these integers.
\<close>

definition py_int :: "real \<Rightarrow> int" where
  "py_int x = (if 0 \<le> x then \<lfloor>x\<rfloor> else \<lceil>x\<rceil>)"

definition savetxt_i :: "ndarray \<Rightarrow> error + int list list" where
  "savetxt_i X =
     (case savetxt X of
        Inl e \<Rightarrow> Inl e
      | Inr lines \<Rightarrow> Inr (map (map py_int) lines))"

text \<open>\<open>np.squeeze\<close>: axes of length one are removed.\<close>

definition squeeze :: "ndarray \<Rightarrow> ndarray" where
  "squeeze X =
     (case X of
        Scalar x \<Rightarrow> Scalar x
      | Vector xs \<Rightarrow> (case xs of [x] \<Rightarrow> Scalar x | _ \<Rightarrow> Vector xs)
      | Matrix rows \<Rightarrow>
          (case rows of
             [] \<Rightarrow> Matrix rows
           | [row] \<Rightarrow> (case row of [x] \<Rightarrow> Scalar x | _ \<Rightarrow> Vector row)
           | _ \<Rightarrow> if list_all (\<lambda>r. length r = 1) rows then Vector (map hd rows)
                  else Matrix rows))"

definition atleast_1d :: "ndarray \<Rightarrow> ndarray" where
  "atleast_1d X = (case X of Scalar x \<Rightarrow> Vector [x] | _ \<Rightarrow> X)"

definition atleast_2d :: "ndarray \<Rightarrow> ndarray" where
  "atleast_2d X =
     (case X of Scalar x \<Rightarrow> Matrix [[x]] | Vector xs \<Rightarrow> Matrix [xs] | Matrix rows \<Rightarrow> X)"

text \<open>
  \<open>np.loadtxt\<close>: blank lines are skipped, lines of different lengths raise
  \<open>ValueError\<close>, an empty file gives an empty one-dimensional array, and the table read
  is squeezed. With \<open>ndmin=1\<close> a result of dimension zero is made one-dimensional again.
\<close>

definition loadtxt_table :: "text_file \<Rightarrow> error + ndarray" where
  "loadtxt_table lines =
     (let rows = filter (\<lambda>r. r \<noteq> []) lines in
      if rows = [] then Inr (Vector [])
      else if \<not> list_all (\<lambda>r. length r = length (hd rows)) rows then Inl ValueError
      else Inr (squeeze (Matrix rows)))"

definition loadtxt :: "text_file \<Rightarrow> error + ndarray" where
  "loadtxt lines = loadtxt_table lines"

definition loadtxt_ndmin1 :: "text_file \<Rightarrow> error + ndarray" where
  "loadtxt_ndmin1 lines =
     (case loadtxt_table lines of Inl e \<Rightarrow> Inl e | Inr X \<Rightarrow> Inr (atleast_1d X))"

text \<open>
  \<open>np.concatenate\<close> along the first axis: it needs at least one array, no array of
  dimension zero, the same number of dimensions in all arrays and, for two-dimensional
  arrays, the same number of columns; otherwise it raises \<open>ValueError\<close>.
\<close>

fun vector_items :: "ndarray \<Rightarrow> real list option" where
  "vector_items (Vector xs) = Some xs"
| "vector_items X = None"

fun matrix_rows :: "ndarray \<Rightarrow> real list list option" where
  "matrix_rows (Matrix rows) = Some rows"
| "matrix_rows X = None"

definition ncols :: "real list list \<Rightarrow> nat" where
  "ncols rows = (case rows of [] \<Rightarrow> 0 | r # rest \<Rightarrow> length r)"

definition np_concatenate :: "ndarray list \<Rightarrow> error + ndarray" where
  "np_concatenate arrays =
     (if arrays = [] then Inl ValueError
      else case those (map vector_items arrays) of
             Some vectors \<Rightarrow> Inr (Vector (concat vectors))
           | None \<Rightarrow>
               (case those (map matrix_rows arrays) of
                  Some matrices \<Rightarrow>
                    if list_all (\<lambda>m. ncols m = ncols (hd matrices)) matrices
                    then Inr (Matrix (concat matrices))
                    else Inl ValueError
                | None \<Rightarrow> Inl ValueError))"

text \<open>\<open>np.row_stack\<close>: every array is made two-dimensional, then they are concatenated.\<close>

definition row_stack :: "ndarray list \<Rightarrow> error + ndarray" where
  "row_stack arrays = np_concatenate (map atleast_2d arrays)"

section \<open>Splitting and concatenating gradient tables\<close>

text \<open>
  \<open>split_bvals_bvecs\<close> (images.py), from the table that \<open>read_bvals_bvecs\<close> returns:
  \<open>bvals\<close> of shape (N,) and \<open>bvecs\<close> with one row per volume. The loop runs over
  \<open>zip(bvals[:, None], bvecs)\<close>, so \<open>bval\<close> is a one-dimensional array of one value and
  \<open>bvec\<close> a row. A file the loop writes is represented by its content; the names of the
  source carry the sample number (\<open>_%04d\<close>), one file per volume and kind.
\<close>

fun split_loop ::
  "(real \<times> real list) list \<Rightarrow> text_file list \<Rightarrow> text_file list
     \<Rightarrow> error + text_file list \<times> text_file list" where
  "split_loop [] split_bval_files split_bvec_files = Inr (split_bval_files, split_bvec_files)"
| "split_loop ((bval, bvec) # rest) split_bval_files split_bvec_files =
     (case savetxt (Vector [bval]) of
        Inl e \<Rightarrow> Inl e
      | Inr bval_written \<Rightarrow>
          (case savetxt (Vector bvec) of
             Inl e \<Rightarrow> Inl e
           | Inr bvec_written \<Rightarrow>
               split_loop rest (split_bval_files @ [bval_written])
                 (split_bvec_files @ [bvec_written])))"

definition split_bvals_bvecs ::
  "real list \<Rightarrow> real list list \<Rightarrow> error + text_file list \<times> text_file list" where
  "split_bvals_bvecs bvals bvecs = split_loop (zip bvals bvecs) [] []"

text \<open>
  \<open>concatenate_bvals\<close> (gradients.py); the result is the content of \<open>out_file\<close>.
\<close>

definition concatenate_bvals :: "text_file list \<Rightarrow> error + int list list" where
  "concatenate_bvals bval_list =
     (case collect (map loadtxt_ndmin1 bval_list) of
        Inl e \<Rightarrow> Inl e
      | Inr collected_vals \<Rightarrow>
          (case np_concatenate collected_vals of
             Inl e \<Rightarrow> Inl e
           | Inr concatenated \<Rightarrow> savetxt_i (squeeze concatenated)))"

text \<open>\<open>concatenate_bvecs\<close> (gradients.py).\<close>

definition concatenate_bvecs :: "text_file list \<Rightarrow> error + ndarray" where
  "concatenate_bvecs input_files =
     (case collect (map loadtxt input_files) of
        Inl e \<Rightarrow> Inl e
      | Inr collected_vecs \<Rightarrow> row_stack collected_vecs)"

section \<open>Principal directions of reoriented tensors (gradients.py, \<open>reorient_tensor_image\<close>)\<close>

text \<open>
  A 3x3 matrix is the triple of its rows. The six stored components of a voxel come in
  the order of the docstring of \<open>tensor_from_vec\<close>, \<open>[dxx, dxy, dyy, dxz, dyz, dzz]\<close>.
\<close>

type_synonym mat3 = "vec3 \<times> vec3 \<times> vec3"

type_synonym tensor_components = "real \<times> real \<times> real \<times> real \<times> real \<times> real"

definition tensor_from_vec :: "tensor_components \<Rightarrow> mat3" where
  "tensor_from_vec vec =
     (case vec of (v0, v1, v2, v3, v4, v5) \<Rightarrow>
        ((v0, v1, v3),
         (v1, v2, v4),
         (v3, v4, v5)))"

text \<open>The columns \<open>evecs[:, 0]\<close>, \<open>evecs[:, 1]\<close> and \<open>evecs[:, 2]\<close> of a matrix.\<close>

definition column0 :: "mat3 \<Rightarrow> vec3" where
  "column0 m = (case m of ((a, b, c), (d, e, f), (g, h, i)) \<Rightarrow> (a, d, g))"

definition column1 :: "mat3 \<Rightarrow> vec3" where
  "column1 m = (case m of ((a, b, c), (d, e, f), (g, h, i)) \<Rightarrow> (b, e, h))"

definition column2 :: "mat3 \<Rightarrow> vec3" where
  "column2 m = (case m of ((a, b, c), (d, e, f), (g, h, i)) \<Rightarrow> (c, f, i))"

text \<open>
  \<open>dipy.core.geometry.normalized_vector\<close> on one row: the row divided by its Euclidean
  norm. For a row of norm zero numpy divides zero by zero and the row holds no numbers;
  that row is \<open>None\<close>.
\<close>

definition normalized_vector :: "vec3 \<Rightarrow> vec3 option" where
  "normalized_vector vec =
     (case vec of (x, y, z) \<Rightarrow>
        let norm = sqrt (x * x + y * y + z * z)
        in if norm = 0 then None else Some (x / norm, y / norm, z / norm))"

text \<open>
  The assignment \<open>output_data[mask_data] = values\<close>: the values go, in order, to the
  voxels where the mask is true.
\<close>

fun masked_assign :: "bool list \<Rightarrow> 'a list \<Rightarrow> 'a list \<Rightarrow> 'a list" where
  "masked_assign (m # mask_data) (out # output_data) values =
     (if m then (case values of
                   v # rest \<Rightarrow> v # masked_assign mask_data output_data rest
                 | [] \<Rightarrow> out # masked_assign mask_data output_data [])
      else out # masked_assign mask_data output_data values)"
| "masked_assign mask_data output_data values = output_data"

text \<open>
  The part of \<open>reorient_tensor_image\<close> between loading the reoriented tensor image and
  writing the vector image. The grid of the mask has the shape \<open>(nx, ny, nz)\<close>, and its
  voxels are taken in one fixed order: \<open>mask_values\<close> holds the value of the mask and
  \<open>reoriented_tensor_data\<close> the six components at each voxel. The tensor image has the
  axes of the grid, a fourth axis of length one and a fifth of length six, and the source
  applies \<open>.squeeze()\<close> to its data, which removes every axis of length one, also an axis
  of the grid; the mask keeps its three axes. Indexing the squeezed data with the mask of
  a grid that has an axis of length one therefore raises \<open>IndexError\<close>, as does a mask of
  another size than the data. \<open>decompose_tensor\<close> is the function of dipy, a parameter; it
  returns the eigenvalues and the matrix whose columns are the eigenvectors.
\<close>

definition reorient_tensor_image ::
  "(mat3 \<Rightarrow> vec3 \<times> mat3) \<Rightarrow> nat \<times> nat \<times> nat \<Rightarrow> real list \<Rightarrow> tensor_components list
     \<Rightarrow> error + vec3 option list" where
  "reorient_tensor_image decompose_tensor grid_shape mask_values reoriented_tensor_data =
     (case grid_shape of (nx, ny, nz) \<Rightarrow>
        let mask_data = map (\<lambda>m. m > 0) mask_values;
            output_data = replicate (length mask_values) (Some (0, 0, 0))
        in if nx = 1 \<or> ny = 1 \<or> nz = 1 then Inl IndexError
           else if length mask_values \<noteq> nx * ny * nz
                   \<or> length reoriented_tensor_data \<noteq> nx * ny * nz then Inl IndexError
           else
             let reoriented_tensors =
                   map snd (filter fst (zip mask_data reoriented_tensor_data));
                 reoriented_vectors =
                   map (\<lambda>row. let row_tensor = tensor_from_vec row;
                                   (evals, evecs) = decompose_tensor row_tensor
                               in column0 evecs)
                     reoriented_tensors
             in Inr (masked_assign mask_data output_data
                       (map normalized_vector reoriented_vectors)))"

text \<open>
  Vectors and matrices: the product of a matrix and a vector, a vector times a number,
  the sum and the inner product of two vectors.
\<close>

definition mat_vec :: "mat3 \<Rightarrow> vec3 \<Rightarrow> vec3" where
  "mat_vec T v =
     (case (T, v) of (((a, b, c), (d, e, f), (g, h, i)), (x, y, z)) \<Rightarrow>
        (a * x + b * y + c * z, d * x + e * y + f * z, g * x + h * y + i * z))"

definition scaled :: "real \<Rightarrow> vec3 \<Rightarrow> vec3" where
  "scaled k v = (case v of (x, y, z) \<Rightarrow> (k * x, k * y, k * z))"

definition vadd :: "vec3 \<Rightarrow> vec3 \<Rightarrow> vec3" where
  "vadd u v = (case (u, v) of ((a, b, c), (x, y, z)) \<Rightarrow> (a + x, b + y, c + z))"

definition dot :: "vec3 \<Rightarrow> vec3 \<Rightarrow> real" where
  "dot u v = (case (u, v) of ((a, b, c), (x, y, z)) \<Rightarrow> a * x + b * y + c * z)"

text \<open>
  What dipy's \<open>decompose_tensor\<close> returns for a symmetric tensor \<open>T\<close>, as far as the
  eigenvectors go: the matrix of \<open>numpy.linalg.eigh\<close>, which is orthogonal (its columns
  are orthonormal, and so are its rows), with the columns reordered so that their
  eigenvalues \<open>m0\<close>, \<open>m1\<close>, \<open>m2\<close> run from the largest to the smallest. The eigenvalues
  it returns beside them are these, clipped from below; the source does not use them.
\<close>

definition orthonormal :: "vec3 \<Rightarrow> vec3 \<Rightarrow> vec3 \<Rightarrow> bool" where
  "orthonormal u v w \<longleftrightarrow>
     dot u u = 1 \<and> dot v v = 1 \<and> dot w w = 1 \<and> dot u v = 0 \<and> dot u w = 0 \<and> dot v w = 0"

definition orthogonal_matrix :: "mat3 \<Rightarrow> bool" where
  "orthogonal_matrix E \<longleftrightarrow>
     orthonormal (column0 E) (column1 E) (column2 E)
     \<and> (case E of (r0, r1, r2) \<Rightarrow> orthonormal r0 r1 r2)"

definition dipy_eigenvectors :: "mat3 \<Rightarrow> mat3 \<Rightarrow> vec3 \<Rightarrow> bool" where
  "dipy_eigenvectors T evecs eigenvalues =
     (case eigenvalues of (m0, m1, m2) \<Rightarrow>
        orthogonal_matrix evecs
        \<and> mat_vec T (column0 evecs) = scaled m0 (column0 evecs)
        \<and> mat_vec T (column1 evecs) = scaled m1 (column1 evecs)
        \<and> mat_vec T (column2 evecs) = scaled m2 (column2 evecs)
        \<and> m1 \<le> m0 \<and> m2 \<le> m1)"

section \<open>Anatomical conformation (images.py, \<open>Conform._run_interface\<close>)\<close>

text \<open>
  A two-dimensional array is the list of its rows. \<open>np.dot\<close> of two such arrays,
  \<open>np.eye\<close>, and \<open>np.allclose\<close>, which holds when every entry \<open>a\<close> of the first array
  and the entry \<open>b\<close> at its place in the second satisfy \<open>|a - b| \<le> atol + rtol * |b|\<close>,
  with \<open>rtol = 1e-05\<close> and, unless given, \<open>atol = 1e-08\<close>.
\<close>

type_synonym matrix = "real list list"

definition np_dot :: "matrix \<Rightarrow> matrix \<Rightarrow> matrix" where
  "np_dot A B =
     map (\<lambda>row. map (\<lambda>j. sum_list (map (\<lambda>k. row ! k * B ! k ! j) [0..<length B]))
                  [0..<length (B ! 0)])
       A"

definition np_eye :: "nat \<Rightarrow> matrix" where
  "np_eye n = map (\<lambda>i. map (\<lambda>j. if i = j then 1 else 0) [0..<n]) [0..<n]"

definition isclose :: "real \<Rightarrow> real \<Rightarrow> real \<Rightarrow> bool" where
  "isclose atol a b \<longleftrightarrow> \<bar>a - b\<bar> \<le> atol + 1 / 100000 * \<bar>b\<bar>"

definition allclose_vector :: "real \<Rightarrow> real list \<Rightarrow> real list \<Rightarrow> bool" where
  "allclose_vector atol a b = list_all2 (isclose atol) a b"

definition allclose :: "real \<Rightarrow> matrix \<Rightarrow> matrix \<Rightarrow> bool" where
  "allclose atol A B = list_all2 (allclose_vector atol) A B"

text \<open>
  \<open>nibabel.orientations.ornt2axcodes\<close> with the default labels: the pair (axis, 1) is the
  second code of the label pair of the axis and (axis, -1) the first; another direction
  raises \<open>ValueError\<close>, and an axis beyond the labels \<open>IndexError\<close>.
\<close>

definition ornt2axcode :: "nat \<times> real \<Rightarrow> error + axcode" where
  "ornt2axcode pair =
     (case pair of (axno, direction) \<Rightarrow>
        if direction = 1
        then (if axno = 0 then Inr AxR else if axno = 1 then Inr AxA
              else if axno = 2 then Inr AxS else Inl IndexError)
        else if direction = -1
        then (if axno = 0 then Inr AxL else if axno = 1 then Inr AxP
              else if axno = 2 then Inr AxI else Inl IndexError)
        else Inl ValueError)"

definition ornt2axcodes :: "(nat \<times> real) list \<Rightarrow> error + axcode list" where
  "ornt2axcodes ornt = collect (map ornt2axcode ornt)"

text \<open>
  \<open>nibabel.orientations.inv_ornt_aff\<close>: the affine that undoes the flips and the
  reordering of axes that \<open>ornt\<close> stands for, on an array of the given shape. It is the
  product of \<open>undo_flip\<close>, the diagonal matrix of the flips whose last column holds
  \<open>flip * center_trans - center_trans\<close> with \<open>center_trans = -(shape - 1) / 2\<close>, and
  \<open>undo_reorder\<close>, the rows of the identity in the order of the axes of \<open>ornt\<close>.
\<close>

definition inv_ornt_aff :: "(nat \<times> real) list \<Rightarrow> nat list \<Rightarrow> error + matrix" where
  "inv_ornt_aff ornt array_shape =
     (let p = length ornt;
          shape = take p array_shape
      in if length shape \<noteq> p then Inl ValueError
         else if \<not> list_all (\<lambda>pair. fst pair \<le> p) ornt then Inl IndexError
         else
           let axis_transpose = map fst ornt;
               undo_reorder = map (\<lambda>axis. np_eye (p + 1) ! axis) (axis_transpose @ [p]);
               flips = map snd ornt @ [1];
               center_trans = map (\<lambda>n. - (real n - 1) / 2) shape;
               undo_flip =
                 map (\<lambda>i. map (\<lambda>j. if j = p \<and> i < p
                                      then snd (ornt ! i) * center_trans ! i - center_trans ! i
                                      else if i = j then flips ! i else 0)
                              [0..<p + 1])
                   [0..<p + 1]
           in Inr (np_dot undo_flip undo_reorder))"

text \<open>
  What the step reads of an image: its affine, its shape, the zooms and the spatial
  unit of its header.
\<close>

datatype xyz_unit = Unit_unknown | Unit_meter | Unit_mm | Unit_micron

record image =
  img_affine :: matrix
  img_shape :: "nat list"
  img_zooms :: "real list"
  img_xyz_unit :: xyz_unit

text \<open>
  \<open>to_lps\<close> (images.py). \<open>io_orientation\<close> is nibabel's function, which finds the
  orientation of an affine numerically; it is a parameter, and \<open>nb.aff2axcodes\<close> is
  \<open>ornt2axcodes\<close> of its result. \<open>as_reoriented\<close>, the method of the image, is a
  parameter too. The result says with the image whether it is a new one.
\<close>

definition aff2axcodes :: "(matrix \<Rightarrow> (nat \<times> real) list) \<Rightarrow> matrix \<Rightarrow> error + axcode list" where
  "aff2axcodes io_orientation aff = ornt2axcodes (io_orientation aff)"

definition to_lps ::
  "(matrix \<Rightarrow> (nat \<times> real) list) \<Rightarrow> (image \<Rightarrow> (nat \<times> real) list \<Rightarrow> image) \<Rightarrow> nat \<times> real
     \<Rightarrow> image \<Rightarrow> error + image \<times> bool" where
  "to_lps io_orientation as_reoriented uninitialised input_img =
     (let new_axcodes = [AxL, AxP, AxS] in
      case aff2axcodes io_orientation (img_affine input_img) of
        Inl e \<Rightarrow> Inl e
      | Inr input_axcodes \<Rightarrow>
          if \<not> input_axcodes = new_axcodes
          then
            (let input_orientation = axcodes2ornt input_axcodes;
                 desired_orientation = axcodes2ornt new_axcodes
             in case ornt_transform uninitialised input_orientation desired_orientation of
                  Inl e \<Rightarrow> Inl e
                | Inr transform_orientation \<Rightarrow>
                    Inr (as_reoriented input_img transform_orientation, True))
          else Inr (input_img, False))"

text \<open>
  The assignments \<open>target_affine[:3, :3] = block\<close> and \<open>target_affine[:3, 3] = column\<close>.
\<close>

definition set_block33 :: "matrix \<Rightarrow> matrix \<Rightarrow> matrix" where
  "set_block33 M block =
     map (\<lambda>i. if i < 3 then take 3 (block ! i) @ drop 3 (M ! i) else M ! i) [0..<length M]"

definition set_column3 :: "matrix \<Rightarrow> real list \<Rightarrow> matrix" where
  "set_column3 M col =
     map (\<lambda>i. if i < 3 then (M ! i)[3 := col ! i] else M ! i) [0..<length M]"

text \<open>
  The step, from loading the image to the assertion. \<open>linalg_inv\<close> is \<open>np.linalg.inv\<close>,
  a parameter. The result holds the transform that is saved, the target affine and
  whether the output file is a new one. Resampling the data does not bear on any of
  them and is left out.
\<close>

record Conform_results =
  conform_transform :: matrix
  conform_target_affine :: matrix
  conform_new_file :: bool

definition Conform_run ::
  "(matrix \<Rightarrow> (nat \<times> real) list) \<Rightarrow> (image \<Rightarrow> (nat \<times> real) list \<Rightarrow> image) \<Rightarrow> nat \<times> real
     \<Rightarrow> (matrix \<Rightarrow> error + matrix) \<Rightarrow> image \<Rightarrow> real list \<Rightarrow> nat list
     \<Rightarrow> error + Conform_results" where
  "Conform_run io_orientation as_reoriented uninitialised linalg_inv orig_img
       target_zooms target_shape =
     bind (to_lps io_orientation as_reoriented uninitialised orig_img) (\<lambda>(reoriented, is_new).
       let target_span = map (\<lambda>(n, z). real n * z) (zip target_shape target_zooms);
           zooms = take 3 (img_zooms reoriented);
           shape = take 3 (img_shape reoriented)
       in bind (inv_ornt_aff (io_orientation (img_affine reoriented)) (img_shape orig_img))
            (\<lambda>ornt_xfm.
          let target_affine = img_affine reoriented;
              conform_xfm = np_eye 4;
              xyz_unit = (if img_xyz_unit reoriented = Unit_unknown then Unit_mm
                          else img_xyz_unit reoriented);
              atol = (case xyz_unit of
                        Unit_meter \<Rightarrow> 1 / 100000
                      | Unit_micron \<Rightarrow> 10
                      | _ \<Rightarrow> 1 / 100);
              rescale = (\<not> allclose_vector atol zooms target_zooms);
              resize = (\<not> shape = target_shape)
          in bind
               (if rescale \<or> resize
                then
                  (let target_affine =
                         (if rescale
                          then
                            (let scale_factor = map (\<lambda>(t, z). t / z) (zip target_zooms zooms)
                             in set_block33 target_affine
                                  (map (\<lambda>row. map (\<lambda>(a, s). a * s) (zip (take 3 row) scale_factor))
                                     (take 3 (img_affine reoriented))))
                          else target_affine);
                       target_affine =
                         (if resize
                          then
                            (let size_factor =
                                   map (\<lambda>(span, z, n). span / (z * real n))
                                     (zip target_span (zip zooms shape));
                                 translation = map (\<lambda>row. row ! 3) (take 3 (img_affine reoriented));
                                 offset = map (\<lambda>(t, f). t * f - t) (zip translation size_factor)
                             in set_column3 target_affine
                                  (map (\<lambda>(t, off). t + real_of_int (py_int off))
                                     (zip translation offset)))
                          else target_affine)
                   in bind (linalg_inv (img_affine reoriented)) (\<lambda>inverse.
                        Inr (target_affine, np_dot inverse target_affine, True)))
                else Inr (target_affine, conform_xfm, is_new))
               (\<lambda>(target_affine, conform_xfm, new_file).
                  let transform = np_dot ornt_xfm conform_xfm
                  in if \<not> allclose (1 / 100000000) (np_dot (img_affine orig_img) transform)
                            target_affine
                     then Inl AssertionError
                     else Inr \<lparr> conform_transform = transform,
                                conform_target_affine = target_affine,
                                conform_new_file = new_file \<rparr>)))"

section \<open>Example inputs\<close>

text \<open>
  The series of the specification for the RPE concatenation: five plus volumes with b0
  indices 0 and 2, four minus volumes with b0 indices 0 and 1.
\<close>

definition rpe_example :: ConcatRPESplits_inputs where
  "rpe_example =
     \<lparr> dwi_plus = [''p0'', ''p1'', ''p2'', ''p3'', ''p4''],
       bvec_plus = [''p0.bvec'', ''p1.bvec'', ''p2.bvec'', ''p3.bvec'', ''p4.bvec''],
       bval_plus = [''p0.bval'', ''p1.bval'', ''p2.bval'', ''p3.bval'', ''p4.bval''],
       b0_images_plus = [''p0'', ''p2''],
       b0_indices_plus = [0, 2],
       hmc_affines_plus = [''hp0'', ''hp1'', ''hp2'', ''hp3'', ''hp4''],
       hmc_affines_minus = [''hm0'', ''hm1'', ''hm2'', ''hm3''],
       template_plus_to_ref_affine = ''plus_to_ref.mat'',
       template_plus_to_ref_warp = None,
       dwi_minus = [''m0'', ''m1'', ''m2'', ''m3''],
       bvec_minus = [''m0.bvec'', ''m1.bvec'', ''m2.bvec'', ''m3.bvec''],
       bval_minus = [''m0.bval'', ''m1.bval'', ''m2.bval'', ''m3.bval''],
       b0_images_minus = [''m0'', ''m1''],
       b0_indices_minus = [0, 1],
       template_minus_to_ref_affine = ''minus_to_ref.mat'',
       template_minus_to_ref_warp = None,
       b0_ref_image = ''b0_ref'',
       b0_ref_mask = ''b0_mask'' \<rparr>"

text \<open>
  A plus series of one volume, which is its only b0 image, with a minus series of two
  volumes.
\<close>

definition rpe_single_plus :: ConcatRPESplits_inputs where
  "rpe_single_plus =
     \<lparr> dwi_plus = [''p0.nii''],
       bvec_plus = [''p0.bvec''],
       bval_plus = [''p0.bval''],
       b0_images_plus = [''p0.nii''],
       b0_indices_plus = [0],
       hmc_affines_plus = [''hp0.mat''],
       hmc_affines_minus = [''hm0.mat'', ''hm1.mat''],
       template_plus_to_ref_affine = ''plus_to_ref.mat'',
       template_plus_to_ref_warp = None,
       dwi_minus = [''m0.nii'', ''m1.nii''],
       bvec_minus = [''m0.bvec'', ''m1.bvec''],
       bval_minus = [''m0.bval'', ''m1.bval''],
       b0_images_minus = [''m0.nii'', ''m1.nii''],
       b0_indices_minus = [0, 1],
       template_minus_to_ref_affine = ''minus_to_ref.mat'',
       template_minus_to_ref_warp = None,
       b0_ref_image = ''b0_ref'',
       b0_ref_mask = ''b0_mask'' \<rparr>"

text \<open>A plus series and a minus series of one volume each, both b0 images.\<close>

definition rpe_single_both :: ConcatRPESplits_inputs where
  "rpe_single_both =
     \<lparr> dwi_plus = [''p0.nii''],
       bvec_plus = [''p0.bvec''],
       bval_plus = [''p0.bval''],
       b0_images_plus = [''p0.nii''],
       b0_indices_plus = [0],
       hmc_affines_plus = [''hp''],
       hmc_affines_minus = [''hm''],
       template_plus_to_ref_affine = ''plus_to_ref.mat'',
       template_plus_to_ref_warp = None,
       dwi_minus = [''m0.nii''],
       bvec_minus = [''m0.bvec''],
       bval_minus = [''m0.bval''],
       b0_images_minus = [''m0.nii''],
       b0_indices_minus = [0],
       template_minus_to_ref_affine = ''minus_to_ref.mat'',
       template_minus_to_ref_warp = None,
       b0_ref_image = ''b0_ref'',
       b0_ref_mask = ''b0_mask'' \<rparr>"

text \<open>
  A grid of two voxels along every axis. One voxel is inside the mask; its reoriented
  tensor is diag(1, 2, 3), stored as \<open>[dxx, dxy, dyy, dxz, dyz, dzz]\<close>. For that tensor
  dipy's \<open>decompose_tensor\<close> returns the eigenvalues 3, 2, 1 with the eigenvectors z, y, x
  as the columns of the matrix; it is called on no other tensor here.
\<close>

definition example_mask :: "real list" where
  "example_mask = [0, 0, 0, 0, 0, 1, 0, 0]"

definition example_tensor_data :: "tensor_components list" where
  "example_tensor_data =
     [(0, 0, 0, 0, 0, 0), (0, 0, 0, 0, 0, 0), (0, 0, 0, 0, 0, 0), (0, 0, 0, 0, 0, 0),
      (0, 0, 0, 0, 0, 0), (1, 0, 2, 0, 0, 3), (0, 0, 0, 0, 0, 0), (0, 0, 0, 0, 0, 0)]"

definition example_evecs :: mat3 where
  "example_evecs = ((0, 0, 1), (0, 1, 0), (1, 0, 0))"

definition example_decompose_tensor :: "mat3 \<Rightarrow> vec3 \<times> mat3" where
  "example_decompose_tensor T = ((3, 2, 1), example_evecs)"

text \<open>
  Two images of four voxels of 2 mm along every axis, one with the axes (L, P, S) and
  one with the axes (R, A, S), and the image \<open>as_reoriented\<close> returns for the second:
  the first. On the affines of these images nibabel's \<open>io_orientation\<close> gives the
  orientation that the sign of the first diagonal entry tells. Conforming these images
  to their own zooms and shape never inverts a matrix; \<open>np.linalg.inv\<close> is given as a
  function that fails, so that a result shows it was not called.
\<close>

definition lps_image :: image where
  "lps_image =
     \<lparr> img_affine = [[-2, 0, 0, 6], [0, -2, 0, 6], [0, 0, 2, 0], [0, 0, 0, 1]],
       img_shape = [4, 4, 4], img_zooms = [2, 2, 2], img_xyz_unit = Unit_mm \<rparr>"

definition ras_image :: image where
  "ras_image =
     \<lparr> img_affine = [[2, 0, 0, 0], [0, 2, 0, 0], [0, 0, 2, 0], [0, 0, 0, 1]],
       img_shape = [4, 4, 4], img_zooms = [2, 2, 2], img_xyz_unit = Unit_mm \<rparr>"

definition example_io_orientation :: "matrix \<Rightarrow> (nat \<times> real) list" where
  "example_io_orientation aff =
     (if aff ! 0 ! 0 < 0 then [(0, -1), (1, -1), (2, 1)] else [(0, 1), (1, 1), (2, 1)])"

definition example_as_reoriented :: "image \<Rightarrow> (nat \<times> real) list \<Rightarrow> image" where
  "example_as_reoriented img ornt = lps_image"

definition example_linalg_inv :: "matrix \<Rightarrow> error + matrix" where
  "example_linalg_inv M = Inl RuntimeError"

section \<open>Properties of transform matching\<close>

lemma argmin_from_spec:
  assumes "best_i < i" "length pre = i"
    and "pre ! best_i = best"
    and "\<forall>k<i. best \<le> pre ! k"
    and "\<forall>k<best_i. best < pre ! k"
  shows "argmin_from xs i best best_i < length (pre @ xs)
       \<and> (\<forall>k<length (pre @ xs). (pre @ xs) ! argmin_from xs i best best_i \<le> (pre @ xs) ! k)
       \<and> (\<forall>k<argmin_from xs i best best_i.
            (pre @ xs) ! argmin_from xs i best best_i < (pre @ xs) ! k)"
  using assms
proof (induction xs arbitrary: i best best_i pre)
  case Nil
  then show ?case by simp
next
  case (Cons x xs)
  have len: "length (pre @ [x]) = Suc i" using Cons.prems by simp
  show ?case
  proof (cases "x < best")
    case True
    have a: "argmin_from (x # xs) i best best_i = argmin_from xs (Suc i) x i"
      using True by simp
    have at: "(pre @ [x]) ! i = x" using Cons.prems by (simp add: nth_append)
    have le: "\<forall>k<Suc i. x \<le> (pre @ [x]) ! k"
    proof (intro allI impI)
      fix k assume k: "k < Suc i"
      show "x \<le> (pre @ [x]) ! k"
      proof (cases "k = i")
        case True
        then show ?thesis using at by simp
      next
        case False
        then have "k < i" using k by simp
        then have "best \<le> pre ! k" "(pre @ [x]) ! k = pre ! k"
          using Cons.prems by (simp_all add: nth_append)
        then show ?thesis using \<open>x < best\<close> by simp
      qed
    qed
    have lt: "\<forall>k<i. x < (pre @ [x]) ! k"
    proof (intro allI impI)
      fix k assume k: "k < i"
      then have "best \<le> pre ! k" "(pre @ [x]) ! k = pre ! k"
        using Cons.prems by (simp_all add: nth_append)
      then show "x < (pre @ [x]) ! k" using True by simp
    qed
    have "i < Suc i" by simp
    note ih = Cons.IH[of i "Suc i" "pre @ [x]" x, OF this len at le lt,
        unfolded append_assoc append_Cons append_Nil]
    show ?thesis unfolding a by (rule ih)
  next
    case False
    have a: "argmin_from (x # xs) i best best_i = argmin_from xs (Suc i) best best_i"
      using False by simp
    have at: "(pre @ [x]) ! best_i = best" using Cons.prems by (simp add: nth_append)
    have le: "\<forall>k<Suc i. best \<le> (pre @ [x]) ! k"
    proof (intro allI impI)
      fix k assume k: "k < Suc i"
      show "best \<le> (pre @ [x]) ! k"
      proof (cases "k = i")
        case True
        then have "(pre @ [x]) ! k = x" using Cons.prems by (simp add: nth_append)
        then show ?thesis using False by simp
      next
        case False
        then have "k < i" using k by simp
        then show ?thesis using Cons.prems by (simp add: nth_append)
      qed
    qed
    have lt: "\<forall>k<best_i. best < (pre @ [x]) ! k"
    proof (intro allI impI)
      fix k assume k: "k < best_i"
      then have "k < length pre" using Cons.prems by simp
      then show "best < (pre @ [x]) ! k" using Cons.prems k by (simp add: nth_append)
    qed
    have "best_i < Suc i" using Cons.prems by simp
    note ih = Cons.IH[of best_i "Suc i" "pre @ [x]" best, OF this len at le lt,
        unfolded append_assoc append_Cons append_Nil]
    show ?thesis unfolding a by (rule ih)
  qed
qed

lemma argmin_spec:
  assumes "xs \<noteq> []"
  shows "\<exists>j. argmin xs = Inr j \<and> j < length xs
           \<and> (\<forall>k<length xs. xs ! j \<le> xs ! k) \<and> (\<forall>k<j. xs ! j < xs ! k)"
proof -
  obtain x rest where xs: "xs = x # rest" using assms by (cases xs) auto
  have "argmin_from rest 1 x 0 < length ([x] @ rest)
       \<and> (\<forall>k<length ([x] @ rest). ([x] @ rest) ! argmin_from rest 1 x 0 \<le> ([x] @ rest) ! k)
       \<and> (\<forall>k<argmin_from rest 1 x 0.
            ([x] @ rest) ! argmin_from rest 1 x 0 < ([x] @ rest) ! k)"
    by (rule argmin_from_spec) auto
  then show ?thesis unfolding xs by simp
qed

lemma argmin_closest_b0:
  assumes "b0 \<noteq> []"
  shows "\<exists>j. argmin (map (\<lambda>b. \<bar>int i - b\<bar>) b0) = Inr j \<and> closest_b0 b0 i j"
proof -
  let ?ds = "map (\<lambda>b. \<bar>int i - b\<bar>) b0"
  have "?ds \<noteq> []" using assms by simp
  from argmin_spec[OF this] obtain j where j: "argmin ?ds = Inr j" "j < length ?ds"
    "\<forall>k<length ?ds. ?ds ! j \<le> ?ds ! k" "\<forall>k<j. ?ds ! j < ?ds ! k"
    by blast
  have "closest_b0 b0 i j"
    unfolding closest_b0_def
  proof (intro conjI allI impI)
    show "j < length b0" using j(2) by simp
  next
    fix k assume "k < length b0"
    then show "\<bar>int i - b0 ! j\<bar> \<le> \<bar>int i - b0 ! k\<bar>"
      using j(2) j(3) by (auto dest!: spec[where x = k])
  next
    fix k assume "k < j"
    then show "\<bar>int i - b0 ! j\<bar> < \<bar>int i - b0 ! k\<bar>"
      using j(2) j(4) by (auto dest!: spec[where x = k])
  qed
  then show ?thesis using j(1) by blast
qed

lemma nearest_loop_spec:
  assumes "b0 \<noteq> []" "length ts = length b0"
  shows "\<exists>r. nearest_loop ts b0 idxs acc = Inr (acc @ r) \<and> length r = length idxs
           \<and> (\<forall>p<length idxs. \<exists>j. closest_b0 b0 (idxs ! p) j \<and> r ! p = ts ! j)"
proof (induction idxs arbitrary: acc)
  case Nil
  then show ?case by simp
next
  case (Cons index rest)
  from argmin_closest_b0[OF assms(1), of index] obtain j
    where j: "argmin (map (\<lambda>b. \<bar>int index - b\<bar>) b0) = Inr j" "closest_b0 b0 index j"
    by blast
  have jlt: "j < length ts" using j(2) assms(2) by (simp add: closest_b0_def)
  from Cons.IH[of "acc @ [ts ! j]"] obtain r
    where r: "nearest_loop ts b0 rest (acc @ [ts ! j]) = Inr ((acc @ [ts ! j]) @ r)"
      "length r = length rest"
      "\<forall>p<length rest. \<exists>j. closest_b0 b0 (rest ! p) j \<and> r ! p = ts ! j"
    by blast
  have run: "nearest_loop ts b0 (index # rest) acc = Inr (acc @ (ts ! j # r))"
    using j(1) jlt r(1) by (simp add: list_get_def)
  have each: "\<forall>p<length (index # rest).
      \<exists>j'. closest_b0 b0 ((index # rest) ! p) j' \<and> (ts ! j # r) ! p = ts ! j'"
  proof (intro allI impI)
    fix p assume p: "p < length (index # rest)"
    show "\<exists>j'. closest_b0 b0 ((index # rest) ! p) j' \<and> (ts ! j # r) ! p = ts ! j'"
    proof (cases p)
      case 0
      then show ?thesis using j(2) by auto
    next
      case (Suc q)
      then have "q < length rest" using p by simp
      then show ?thesis using r(3) Suc by simp
    qed
  qed
  show ?case using run each r(2) by (intro exI[where x = "ts ! j # r"]) simp
qed

lemma match_transforms_nearest_case:
  assumes "length transforms \<noteq> length dwi_files" "length transforms = length b0_indices"
    and "transforms \<noteq> []"
  shows "\<exists>r. match_transforms dwi_files transforms b0_indices = Inr r
           \<and> length r = length dwi_files
           \<and> (\<forall>i<length dwi_files. \<exists>j. closest_b0 b0_indices i j \<and> r ! i = transforms ! j)"
proof -
  have b0: "b0_indices \<noteq> []" using assms(2,3) by auto
  from nearest_loop_spec[OF b0 assms(2), of "[0..<length dwi_files]" "[]"] obtain r
    where r: "nearest_loop transforms b0_indices [0..<length dwi_files] [] = Inr r"
      "length r = length dwi_files"
      "\<forall>p<length dwi_files. \<exists>j. closest_b0 b0_indices ([0..<length dwi_files] ! p) j
          \<and> r ! p = transforms ! j"
    by auto
  have "match_transforms dwi_files transforms b0_indices = Inr r"
    using assms(1,2) r(1) by (simp add: match_transforms_def Let_def)
  moreover have "\<forall>i<length dwi_files. \<exists>j. closest_b0 b0_indices i j \<and> r ! i = transforms ! j"
    using r(3) by simp
  ultimately show ?thesis using r(2) by blast
qed

text \<open>
  C1 (as amended). For a volume series of length N, a transform list of length M and a
  b0 index list: if M = N the transform list is returned unchanged; otherwise, if M
  equals the number of b0 indices and M is at least 1, the result is a list of length N
  whose entry for each volume index i is the transform at a position j of the b0 list
  that minimises the distance |i - b0[j]|, the lowest such position on ties; if M differs
  from both N and the number of b0 indices the function raises its own exception. With
  no transform and no b0 index at all (M = 0, N at least 1) numpy's argmin raises
  ValueError instead of a list being returned.
\<close>

theorem match_transforms_spec:
  "(length transforms = length dwi_files \<longrightarrow>
      match_transforms dwi_files transforms b0_indices = Inr transforms)
   \<and> (length transforms \<noteq> length dwi_files \<and> length transforms = length b0_indices
        \<and> transforms \<noteq> [] \<longrightarrow>
      (\<exists>r. match_transforms dwi_files transforms b0_indices = Inr r
         \<and> length r = length dwi_files
         \<and> (\<forall>i<length dwi_files.
               \<exists>j. closest_b0 b0_indices i j \<and> r ! i = transforms ! j)))
   \<and> (length transforms \<noteq> length dwi_files \<and> length transforms \<noteq> length b0_indices \<longrightarrow>
      match_transforms dwi_files transforms b0_indices = Inl TransformCountMismatch)
   \<and> (length transforms \<noteq> length dwi_files \<and> transforms = [] \<and> b0_indices = [] \<longrightarrow>
      match_transforms dwi_files transforms b0_indices = Inl ValueError)"
proof (intro conjI impI)
  assume "length transforms = length dwi_files"
  then show "match_transforms dwi_files transforms b0_indices = Inr transforms"
    by (simp add: match_transforms_def)
next
  assume "length transforms \<noteq> length dwi_files \<and> length transforms = length b0_indices
    \<and> transforms \<noteq> []"
  then show "\<exists>r. match_transforms dwi_files transforms b0_indices = Inr r
         \<and> length r = length dwi_files
         \<and> (\<forall>i<length dwi_files. \<exists>j. closest_b0 b0_indices i j \<and> r ! i = transforms ! j)"
    using match_transforms_nearest_case by blast
next
  assume "length transforms \<noteq> length dwi_files \<and> length transforms \<noteq> length b0_indices"
  then show "match_transforms dwi_files transforms b0_indices = Inl TransformCountMismatch"
    by (auto simp: match_transforms_def Let_def)
next
  assume a: "length transforms \<noteq> length dwi_files \<and> transforms = [] \<and> b0_indices = []"
  then obtain n where "length dwi_files = Suc n" by (cases dwi_files) auto
  then show "match_transforms dwi_files transforms b0_indices = Inl ValueError"
    using a by (simp add: match_transforms_def Let_def upt_rec)
qed

text \<open>
  The theorem at the series of the specification: six volumes, two transforms registered
  at the b0 indices 0 and 3. Volume 1 is bound to the transform of b0 index 0 and volume 5
  to that of b0 index 3. It is also used with equal lengths, with a transform list that
  fits neither count, and with no transform at all.
\<close>

theorem match_transforms_spec_witness:
  "match_transforms [''v0'', ''v1'', ''v2'', ''v3'', ''v4'', ''v5''] [''t0'', ''t3''] [0, 3]
     = Inr [''t0'', ''t0'', ''t3'', ''t3'', ''t3'', ''t3'']
   \<and> closest_b0 [0, 3] 1 0 \<and> closest_b0 [0, 3] 5 1
   \<and> match_transforms [''v0'', ''v1''] [''t0'', ''t1''] [0] = Inr [''t0'', ''t1'']
   \<and> match_transforms [''v0'', ''v1'', ''v2''] [''t0'', ''t1''] [0]
       = Inl TransformCountMismatch
   \<and> match_transforms [''v0''] ([] :: string list) [] = Inl ValueError"
  using match_transforms_spec [of "[''t0'', ''t3'']"
        "[''v0'', ''v1'', ''v2'', ''v3'', ''v4'', ''v5'']" "[0, 3]"]
    match_transforms_spec [of "[''t0'', ''t1'']" "[''v0'', ''v1'']" "[0]"]
    match_transforms_spec [of "[''t0'', ''t1'']" "[''v0'', ''v1'', ''v2'']" "[0]"]
    match_transforms_spec [of "[] :: string list" "[''v0'']" "[]"]
  by (simp add: match_transforms_def list_get_def closest_b0_def upt_rec less_Suc_eq)

text \<open>
  C1 as stated fails when the transform list and the b0 index list are both empty and
  the series is not: the lengths agree, so the claim promises a list of length 1, and the
  code raises numpy's ValueError at the first volume.
\<close>

theorem match_transforms_empty_counterexample:
  "length ([] :: string list) = length ([] :: int list)
   \<and> match_transforms [''v0''] ([] :: string list) [] = Inl ValueError"
  by (simp add: match_transforms_def upt_rec)

section \<open>Properties of the RPE concatenation\<close>

lemma get_multi_many: "2 \<le> length entries \<Longrightarrow> get_multi entries = Many entries"
  by (cases entries rule: get_multi.cases) simp_all

text \<open>
  When every file list of both series has at least two entries, the step does what C6
  says: every unified list is the plus list followed by the minus list, the b0 indices
  of the minus series are shifted by the number of plus volumes, and the provenance tags
  are one per volume.
\<close>

lemma ConcatRPESplits_two_or_more:
  assumes "2 \<le> length (dwi_plus inputs)" "2 \<le> length (dwi_minus inputs)"
    and "2 \<le> length (bval_plus inputs)" "2 \<le> length (bval_minus inputs)"
    and "2 \<le> length (bvec_plus inputs)" "2 \<le> length (bvec_minus inputs)"
    and "2 \<le> length (b0_images_plus inputs)" "2 \<le> length (b0_images_minus inputs)"
    and "2 \<le> length (hmc_affines_plus inputs)" "2 \<le> length (hmc_affines_minus inputs)"
  shows "\<exists>r. ConcatRPESplits_run compose_affines cwd inputs = Inr r
           \<and> rpe_dwi_files r = Many (dwi_plus inputs @ dwi_minus inputs)
           \<and> rpe_bval_files r = Many (bval_plus inputs @ bval_minus inputs)
           \<and> rpe_bvec_files r = Many (bvec_plus inputs @ bvec_minus inputs)
           \<and> rpe_b0_images r = Many (b0_images_plus inputs @ b0_images_minus inputs)
           \<and> rpe_b0_indices r
               = b0_indices_plus inputs
                 @ map (\<lambda>i. int (length (dwi_plus inputs)) + i) (b0_indices_minus inputs)
           \<and> rpe_original_grouping r
               = replicate (length (dwi_plus inputs)) ''plus''
                 @ replicate (length (dwi_minus inputs)) ''minus''"
  using assms by (simp add: ConcatRPESplits_run_def Let_def bind_def get_multi_many)

lemma ConcatRPESplits_example:
  "\<exists>r. ConcatRPESplits_run (\<lambda>r a out. out) ''cwd'' rpe_example = Inr r
       \<and> rpe_dwi_files r
           = Many [''p0'', ''p1'', ''p2'', ''p3'', ''p4'', ''m0'', ''m1'', ''m2'', ''m3'']
       \<and> rpe_b0_indices r = [0, 2, 5, 6]
       \<and> rpe_original_grouping r
           = [''plus'', ''plus'', ''plus'', ''plus'', ''plus'',
              ''minus'', ''minus'', ''minus'', ''minus'']"
  by (simp add: ConcatRPESplits_run_def Let_def bind_def rpe_example_def numeral_eq_Suc)

text \<open>
  C6 is about this step. A series of one volume is read as the name of its file and not
  as a list of one name. With one plus volume and two or more minus volumes the sum of
  the two values is a string plus a list and the step raises TypeError. With one volume
  in every list of both series the unified lists are the two names joined into one
  string, the b0 indices of the minus series are shifted by the number of characters of
  the plus file name, and there is one provenance tag per character of the two names.
\<close>

theorem ConcatRPESplits_single_volume:
  "(dwi_plus inputs = [plus_name] \<and> 2 \<le> length (dwi_minus inputs) \<longrightarrow>
      ConcatRPESplits_run compose_affines cwd inputs = Inl TypeError)
   \<and> (dwi_plus inputs = [plus_name] \<and> dwi_minus inputs = [minus_name]
        \<and> length (bval_plus inputs) = 1 \<and> length (bval_minus inputs) = 1
        \<and> length (bvec_plus inputs) = 1 \<and> length (bvec_minus inputs) = 1
        \<and> length (b0_images_plus inputs) = 1 \<and> length (b0_images_minus inputs) = 1
        \<and> hmc_affines_plus inputs \<noteq> [] \<and> hmc_affines_minus inputs \<noteq> [] \<longrightarrow>
      (\<exists>r. ConcatRPESplits_run compose_affines cwd inputs = Inr r
         \<and> rpe_dwi_files r = Single (plus_name @ minus_name)
         \<and> rpe_b0_indices r
             = b0_indices_plus inputs
               @ map (\<lambda>i. int (length plus_name) + i) (b0_indices_minus inputs)
         \<and> rpe_original_grouping r
             = replicate (length plus_name) ''plus''
               @ replicate (length minus_name) ''minus''))"
proof (intro conjI impI)
  assume a: "dwi_plus inputs = [plus_name] \<and> 2 \<le> length (dwi_minus inputs)"
  then have "get_multi (dwi_minus inputs) = Many (dwi_minus inputs)"
    by (simp add: get_multi_many)
  then show "ConcatRPESplits_run compose_affines cwd inputs = Inl TypeError"
    using a by (simp add: ConcatRPESplits_run_def Let_def bind_def)
next
  assume a: "dwi_plus inputs = [plus_name] \<and> dwi_minus inputs = [minus_name]
        \<and> length (bval_plus inputs) = 1 \<and> length (bval_minus inputs) = 1
        \<and> length (bvec_plus inputs) = 1 \<and> length (bvec_minus inputs) = 1
        \<and> length (b0_images_plus inputs) = 1 \<and> length (b0_images_minus inputs) = 1
        \<and> hmc_affines_plus inputs \<noteq> [] \<and> hmc_affines_minus inputs \<noteq> []"
  have one: "\<And>entries. length entries = 1 \<Longrightarrow> \<exists>entry. get_multi entries = Single entry"
    by (auto simp: length_Suc_conv)
  have some: "\<And>entries. entries \<noteq> [] \<Longrightarrow> \<exists>items. py_iter (get_multi entries) = Inr items"
  proof -
    fix entries :: "string list"
    assume "entries \<noteq> []"
    then show "\<exists>items. py_iter (get_multi entries) = Inr items"
      by (cases entries rule: get_multi.cases) simp_all
  qed
  obtain vp vm cp cm bp bm
    where s: "get_multi (bval_plus inputs) = Single vp" "get_multi (bval_minus inputs) = Single vm"
      "get_multi (bvec_plus inputs) = Single cp" "get_multi (bvec_minus inputs) = Single cm"
      "get_multi (b0_images_plus inputs) = Single bp"
      "get_multi (b0_images_minus inputs) = Single bm"
    using a one by metis
  obtain ip im
    where i: "py_iter (get_multi (hmc_affines_plus inputs)) = Inr ip"
      "py_iter (get_multi (hmc_affines_minus inputs)) = Inr im"
    using a some by metis
  show "\<exists>r. ConcatRPESplits_run compose_affines cwd inputs = Inr r
         \<and> rpe_dwi_files r = Single (plus_name @ minus_name)
         \<and> rpe_b0_indices r
             = b0_indices_plus inputs
               @ map (\<lambda>i. int (length plus_name) + i) (b0_indices_minus inputs)
         \<and> rpe_original_grouping r
             = replicate (length plus_name) ''plus''
               @ replicate (length minus_name) ''minus''"
    using a s i by (simp add: ConcatRPESplits_run_def Let_def bind_def)
qed

text \<open>
  One plus volume p0.nii with two minus volumes: TypeError. One plus volume p0.nii with
  one minus volume m0.nii: the unified volume list is the string p0.niim0.nii, the b0
  indices are 0 and 6, and there are twelve provenance tags.
\<close>

theorem ConcatRPESplits_single_volume_witness:
  "dwi_plus rpe_single_plus = [''p0.nii''] \<and> 2 \<le> length (dwi_minus rpe_single_plus)
   \<and> ConcatRPESplits_run (\<lambda>r a out. out) ''cwd'' rpe_single_plus = Inl TypeError
   \<and> dwi_plus rpe_single_both = [''p0.nii''] \<and> dwi_minus rpe_single_both = [''m0.nii'']
   \<and> length (bval_plus rpe_single_both) = 1 \<and> length (bval_minus rpe_single_both) = 1
   \<and> length (bvec_plus rpe_single_both) = 1 \<and> length (bvec_minus rpe_single_both) = 1
   \<and> length (b0_images_plus rpe_single_both) = 1
   \<and> length (b0_images_minus rpe_single_both) = 1
   \<and> hmc_affines_plus rpe_single_both \<noteq> [] \<and> hmc_affines_minus rpe_single_both \<noteq> []
   \<and> (case ConcatRPESplits_run (\<lambda>r a out. out) ''cwd'' rpe_single_both of
         Inl e \<Rightarrow> False
       | Inr r \<Rightarrow> rpe_dwi_files r = Single ''p0.niim0.nii''
                 \<and> rpe_b0_indices r = [0, 6]
                 \<and> length (rpe_original_grouping r) = 12)"
proof -
  have h: "dwi_plus rpe_single_plus = [''p0.nii''] \<and> 2 \<le> length (dwi_minus rpe_single_plus)"
    by (simp add: rpe_single_plus_def)
  have g: "dwi_plus rpe_single_both = [''p0.nii''] \<and> dwi_minus rpe_single_both = [''m0.nii'']
      \<and> length (bval_plus rpe_single_both) = 1 \<and> length (bval_minus rpe_single_both) = 1
      \<and> length (bvec_plus rpe_single_both) = 1 \<and> length (bvec_minus rpe_single_both) = 1
      \<and> length (b0_images_plus rpe_single_both) = 1
      \<and> length (b0_images_minus rpe_single_both) = 1
      \<and> hmc_affines_plus rpe_single_both \<noteq> [] \<and> hmc_affines_minus rpe_single_both \<noteq> []"
    by (simp add: rpe_single_both_def)
  have i: "b0_indices_plus rpe_single_both = [0]" "b0_indices_minus rpe_single_both = [0]"
    by (simp_all add: rpe_single_both_def)
  have a: "ConcatRPESplits_run (\<lambda>r a out. out) ''cwd'' rpe_single_plus = Inl TypeError"
    using h ConcatRPESplits_single_volume [of rpe_single_plus "''p0.nii''" "\<lambda>r a out. out"
        "''cwd''" "''m0.nii''"]
    by blast
  from g ConcatRPESplits_single_volume [of rpe_single_both "''p0.nii''" "\<lambda>r a out. out"
      "''cwd''" "''m0.nii''"]
  obtain r where r: "ConcatRPESplits_run (\<lambda>r a out. out) ''cwd'' rpe_single_both = Inr r"
    "rpe_dwi_files r = Single (''p0.nii'' @ ''m0.nii'')"
    "rpe_b0_indices r
       = b0_indices_plus rpe_single_both
         @ map (\<lambda>i. int (length ''p0.nii'') + i) (b0_indices_minus rpe_single_both)"
    "rpe_original_grouping r
       = replicate (length ''p0.nii'') ''plus'' @ replicate (length ''m0.nii'') ''minus''"
    by blast
  have b: "case ConcatRPESplits_run (\<lambda>r a out. out) ''cwd'' rpe_single_both of
         Inl e \<Rightarrow> False
       | Inr r \<Rightarrow> rpe_dwi_files r = Single ''p0.niim0.nii''
                 \<and> rpe_b0_indices r = [0, 6]
                 \<and> length (rpe_original_grouping r) = 12"
    using r i by simp
  show ?thesis using h g a b by simp
qed

section \<open>Properties of the composite transform builder\<close>

lemma nearest_loop_length:
  "nearest_loop ts b0 idxs acc = Inr r \<Longrightarrow> length r = length acc + length idxs"
proof (induction idxs arbitrary: acc)
  case Nil
  then show ?case by simp
next
  case (Cons index rest)
  from Cons.prems obtain n t
    where "nearest_loop ts b0 rest (acc @ [t]) = Inr r"
    by (auto split: sum.splits)
  from Cons.IH[OF this] show ?case by simp
qed

lemma match_transforms_length:
  assumes "match_transforms dwi_files transforms b0_indices = Inr r"
  shows "length r = length dwi_files"
proof (cases "length dwi_files = length transforms")
  case True
  then show ?thesis using assms by (simp add: match_transforms_def)
next
  case False
  then have "nearest_loop transforms b0_indices [0..<length dwi_files] [] = Inr r"
    using assms by (simp add: match_transforms_def Let_def split: if_splits)
  from nearest_loop_length[OF this] show ?thesis by simp
qed

lemma collect_map_Inr: "collect (map (\<lambda>x. Inr (f x)) xs) = Inr (map f xs)"
  by (induction xs) simp_all

lemma collect_list_get:
  assumes "\<forall>xfm\<in>set stages. image_num < length xfm"
  shows "collect (map (\<lambda>xfm. list_get xfm image_num) stages)
           = Inr (map (\<lambda>xfm. xfm ! image_num) stages)"
  using assms by (induction stages) (simp_all add: list_get_def)

lemma chains_of_stages:
  assumes "\<forall>xfm\<in>set stages. length xfm = n"
  shows "collect (map (\<lambda>image_num. collect (map (\<lambda>xfm. list_get xfm image_num) stages))
                    [0..<n])
           = Inr (map (\<lambda>image_num. map (\<lambda>xfm. xfm ! image_num) stages) [0..<n])"
proof -
  have "map (\<lambda>image_num. collect (map (\<lambda>xfm. list_get xfm image_num) stages)) [0..<n]
          = map (\<lambda>image_num. Inr (map (\<lambda>xfm. xfm ! image_num) stages)) [0..<n]"
    using assms by (intro map_cong refl collect_list_get) auto
  then show ?thesis by (simp only: collect_map_Inr)
qed

lemma transform_lists_without_mni:
  assumes "length sdc_unwarp \<noteq> length dwi_files" "length sdc_unwarp \<noteq> 1"
    and "match_transforms dwi_files hmc_to_ref_affines original_b0_indices = Inr dwi_hmc_affines"
  shows "ComposeTransforms_transform_lists dwi_files original_b0_indices hmc_to_ref_affines
           (Some sdc_unwarp) t1w_affine None
         = Inr (map (\<lambda>image_num. [t1w_affine, dwi_hmc_affines ! image_num])
                  [0..<length dwi_files],
                [''hmc'', ''b0 to t1''])"
proof -
  let ?n = "length dwi_files"
  let ?stages = "[replicate ?n t1w_affine, dwi_hmc_affines]"
  have len: "length dwi_hmc_affines = ?n" using match_transforms_length[OF assms(3)] .
  have "\<forall>xfm\<in>set ?stages. length xfm = ?n" using len by simp
  from chains_of_stages[OF this]
  have "collect (map (\<lambda>image_num. collect (map (\<lambda>xfm. list_get xfm image_num) ?stages))
                   [0..<?n])
          = Inr (map (\<lambda>image_num. [t1w_affine, dwi_hmc_affines ! image_num]) [0..<?n])"
    by simp
  then show ?thesis
    using assms len
    by (simp add: ComposeTransforms_transform_lists_def add_sdc_unwarp_def add_mni_xform_def)
qed

lemma transform_lists_with_mni:
  assumes "length sdc_unwarp \<noteq> length dwi_files" "length sdc_unwarp \<noteq> 1"
    and "match_transforms dwi_files hmc_to_ref_affines original_b0_indices = Inr dwi_hmc_affines"
  shows "ComposeTransforms_transform_lists dwi_files original_b0_indices hmc_to_ref_affines
           (Some sdc_unwarp) t1w_affine (Some [mni_affine, mni_warp])
         = Inr (map (\<lambda>image_num. [mni_warp, mni_affine, t1w_affine, dwi_hmc_affines ! image_num])
                  [0..<length dwi_files],
                [''hmc'', ''b0 to t1'', ''mni affine'', ''mni warp''])"
proof -
  let ?n = "length dwi_files"
  let ?stages = "[replicate ?n mni_warp, replicate ?n mni_affine, replicate ?n t1w_affine,
                  dwi_hmc_affines]"
  have len: "length dwi_hmc_affines = ?n" using match_transforms_length[OF assms(3)] .
  have "\<forall>xfm\<in>set ?stages. length xfm = ?n" using len by simp
  from chains_of_stages[OF this]
  have "collect (map (\<lambda>image_num. collect (map (\<lambda>xfm. list_get xfm image_num) ?stages))
                   [0..<?n])
          = Inr (map (\<lambda>image_num.
                   [mni_warp, mni_affine, t1w_affine, dwi_hmc_affines ! image_num]) [0..<?n])"
    by simp
  then show ?thesis
    using assms len
    by (simp add: ComposeTransforms_transform_lists_def add_sdc_unwarp_def add_mni_xform_def)
qed

text \<open>
  C3 (as amended). When the distortion-correction list is supplied with a length that is
  neither 1 nor the number of volumes, the builder leaves it out of every chain and goes
  on without an error: with motion-correction affines that match the series, the chain of
  volume i is the diffusion-to-anatomical affine followed by the motion-correction affine
  of i (preceded by the template warp and affine when the template transform is given),
  and the stage names hold no fieldwarp.
\<close>

theorem ComposeTransforms_fieldwarps_left_out:
  assumes "length sdc_unwarp \<noteq> length dwi_files" "length sdc_unwarp \<noteq> 1"
    and "match_transforms dwi_files hmc_to_ref_affines original_b0_indices = Inr dwi_hmc_affines"
  shows "ComposeTransforms_transform_lists dwi_files original_b0_indices hmc_to_ref_affines
           (Some sdc_unwarp) t1w_affine None
         = Inr (map (\<lambda>image_num. [t1w_affine, dwi_hmc_affines ! image_num])
                  [0..<length dwi_files],
                [''hmc'', ''b0 to t1''])
       \<and> ComposeTransforms_transform_lists dwi_files original_b0_indices hmc_to_ref_affines
           (Some sdc_unwarp) t1w_affine (Some [mni_affine, mni_warp])
         = Inr (map (\<lambda>image_num. [mni_warp, mni_affine, t1w_affine, dwi_hmc_affines ! image_num])
                  [0..<length dwi_files],
                [''hmc'', ''b0 to t1'', ''mni affine'', ''mni warp''])"
  using transform_lists_without_mni[OF assms] transform_lists_with_mni[OF assms] by simp

text \<open>
  Three volumes, one motion-correction affine registered at b0 index 0 and two
  distortion-correction warps: the warps appear in no chain.
\<close>

theorem ComposeTransforms_fieldwarps_left_out_witness:
  "length [''w0'', ''w1''] \<noteq> length [''v0'', ''v1'', ''v2'']
   \<and> length [''w0'', ''w1''] \<noteq> (1::nat)
   \<and> match_transforms [''v0'', ''v1'', ''v2''] [''h0''] [0] = Inr [''h0'', ''h0'', ''h0'']
   \<and> ComposeTransforms_transform_lists [''v0'', ''v1'', ''v2''] [0] [''h0'']
        (Some [''w0'', ''w1'']) ''t1'' None
      = Inr ([[''t1'', ''h0''], [''t1'', ''h0''], [''t1'', ''h0'']], [''hmc'', ''b0 to t1''])
   \<and> ComposeTransforms_transform_lists [''v0'', ''v1'', ''v2''] [0] [''h0'']
        (Some [''w0'', ''w1'']) ''t1'' (Some [''mni.mat'', ''mni.h5''])
      = Inr ([[''mni.h5'', ''mni.mat'', ''t1'', ''h0''], [''mni.h5'', ''mni.mat'', ''t1'', ''h0''],
              [''mni.h5'', ''mni.mat'', ''t1'', ''h0'']],
             [''hmc'', ''b0 to t1'', ''mni affine'', ''mni warp''])"
proof -
  have m: "match_transforms [''v0'', ''v1'', ''v2''] [''h0''] [0] = Inr [''h0'', ''h0'', ''h0'']"
    by (simp add: match_transforms_def list_get_def upt_rec)
  have l1: "length [''w0'', ''w1''] \<noteq> length [''v0'', ''v1'', ''v2'']" by simp
  have l2: "length [''w0'', ''w1''] \<noteq> 1" by simp
  show ?thesis
    using m ComposeTransforms_fieldwarps_left_out [OF l1 l2 m, of "''t1''" "''mni.mat''" "''mni.h5''"]
    by (simp add: upt_rec)
qed

text \<open>
  C3 as stated fails: with three volumes, three motion-correction affines and two
  distortion-correction warps the claim promises an error, and the builder returns the
  chains of the three volumes.
\<close>

theorem ComposeTransforms_fieldwarps_counterexample:
  "ComposeTransforms_transform_lists [''v0'', ''v1'', ''v2''] [0] [''h0'', ''h1'', ''h2'']
     (Some [''w0'', ''w1'']) ''t1'' None
   = Inr ([[''t1'', ''h0''], [''t1'', ''h1''], [''t1'', ''h2'']], [''hmc'', ''b0 to t1''])"
  by (simp add: ComposeTransforms_transform_lists_def add_sdc_unwarp_def add_mni_xform_def
      match_transforms_def list_get_def upt_rec)

section \<open>Properties of the intra-modal merge\<close>

text \<open>
  C9 is about this path: with the reorientation flag set and more than one input, the
  file handed to motion correction is the merge of the inputs as they were given. The
  reoriented files are written and not used; the merge of the reoriented files is a
  different file.
\<close>

theorem IntraModalMerge_merges_original_inputs:
  assumes "1 < length in_files"
  shows "IntraModalMerge_run ndim squeezed_ndim True in_files
           = Inr (MCFLIRT (Merged (map Input in_files)))
       \<and> IntraModalMerge_run ndim squeezed_ndim True in_files
           \<noteq> Inr (MCFLIRT (Merged (map Lps (map Input in_files))))"
proof -
  obtain f fs where fs: "in_files = f # fs" using assms by (cases in_files) auto
  show ?thesis using assms unfolding fs by (simp add: IntraModalMerge_run_def)
qed

theorem IntraModalMerge_merges_original_inputs_witness:
  "1 < length [''a.nii'', ''b.nii'']
   \<and> IntraModalMerge_run (\<lambda>f. 3) (\<lambda>f. 3) True [''a.nii'', ''b.nii'']
       = Inr (MCFLIRT (Merged [Input ''a.nii'', Input ''b.nii'']))
   \<and> IntraModalMerge_run (\<lambda>f. 3) (\<lambda>f. 3) True [''a.nii'', ''b.nii'']
       \<noteq> Inr (MCFLIRT (Merged [Lps (Input ''a.nii''), Lps (Input ''b.nii'')]))"
proof -
  have h: "1 < length [''a.nii'', ''b.nii'']" by simp
  show ?thesis
    using h IntraModalMerge_merges_original_inputs [OF h, of "\<lambda>f. 3" "\<lambda>f. 3"] by simp
qed

section \<open>Properties of the local gradient rotation\<close>

lemma rotate_volume_effect:
  "rotated_vec_files (rotate_volume b0_image rotated_field prefix st (vecnum, bvec, warp))
     = rotated_vec_files st @ [prefix @ zero_padded 3 vecnum @ ''_rotated.nii.gz'']
   \<and> dom (files (rotate_volume b0_image rotated_field prefix st (vecnum, bvec, warp)))
     = insert (prefix @ zero_padded 3 vecnum @ ''_rotated.nii.gz'') (dom (files st))"
  by (simp add: rotate_volume_def Let_def)

lemma rotate_volumes_effect:
  "rotated_vec_files (foldl (rotate_volume b0_image rotated_field prefix) st (enumerate k items))
     = rotated_vec_files st
       @ map (\<lambda>n. prefix @ zero_padded 3 n @ ''_rotated.nii.gz'') [k..<k + length items]
   \<and> dom (files (foldl (rotate_volume b0_image rotated_field prefix) st (enumerate k items)))
     = dom (files st)
       \<union> (\<lambda>n. prefix @ zero_padded 3 n @ ''_rotated.nii.gz'') ` {k..<k + length items}"
proof (induction items arbitrary: k st)
  case Nil
  then show ?case by simp
next
  case (Cons item items)
  obtain bvec warp where item: "item = (bvec, warp)" by (cases item)
  let ?st = "rotate_volume b0_image rotated_field prefix st (k, bvec, warp)"
  have rng: "[k..<k + length (item # items)] = k # [Suc k..<Suc k + length items]"
    by (simp add: upt_rec)
  have img: "{k..<k + length (item # items)} = insert k {Suc k..<Suc k + length items}"
    by auto
  show ?case
    unfolding rng img
    using Cons.IH[of ?st "Suc k"] rotate_volume_effect[of b0_image rotated_field prefix st k bvec warp]
    by (simp add: item)
qed

text \<open>
  C8 is about this function: for every non-empty list of volumes (and of warps) the
  final comprehension calls \<open>get_data()\<close> on a file name and the function raises
  \<open>AttributeError\<close>. No output file is written and no temporary file is deleted: the files
  on disk are those from before together with the rotated file of every volume.
\<close>

theorem local_bvec_rotation_raises:
  assumes "original_bvecs \<noteq> []" "warp_transforms \<noteq> []"
  shows "fst (local_bvec_rotation b0_image rotated_field stack disk original_bvecs
                warp_transforms cwd output_fname) = Inl AttributeError
       \<and> dom (snd (local_bvec_rotation b0_image rotated_field stack disk original_bvecs
                warp_transforms cwd output_fname))
         = dom disk
           \<union> (\<lambda>n. path_join cwd ''local_bvec_'' @ zero_padded 3 n @ ''_rotated.nii.gz'')
               ` {0..<min (length original_bvecs) (length warp_transforms)}"
proof -
  let ?prefix = "path_join cwd ''local_bvec_''"
  let ?items = "zip original_bvecs warp_transforms"
  let ?st = "foldl (rotate_volume b0_image rotated_field ?prefix)
               \<lparr> files = disk, rotated_vec_files = [], commands = [] \<rparr> (enumerate 0 ?items)"
  obtain item items where items: "?items = item # items"
    using assms by (cases original_bvecs; cases warp_transforms) auto
  have eff: "rotated_vec_files ?st
      = map (\<lambda>n. ?prefix @ zero_padded 3 n @ ''_rotated.nii.gz'') [0..<length ?items]"
    "dom (files ?st)
      = dom disk \<union> (\<lambda>n. ?prefix @ zero_padded 3 n @ ''_rotated.nii.gz'') ` {0..<length ?items}"
    using rotate_volumes_effect[of b0_image rotated_field ?prefix
        "\<lparr> files = disk, rotated_vec_files = [], commands = [] \<rparr>" 0 ?items]
    by simp_all
  have "[0..<length ?items] = 0 # [1..<length ?items]"
    unfolding items by (simp add: upt_rec)
  then obtain name names where names: "rotated_vec_files ?st = name # names"
    using eff(1) by simp
  have raise: "collect (map (\<lambda>img. get_data (Str img)) (rotated_vec_files ?st))
      = (Inl AttributeError :: error + 'a list)"
    unfolding names by (simp add: get_data_def)
  have run: "local_bvec_rotation b0_image rotated_field stack disk original_bvecs
      warp_transforms cwd output_fname = (Inl AttributeError, files ?st)"
    unfolding local_bvec_rotation_def Let_def raise by simp
  show ?thesis unfolding run using eff(2) by simp
qed

text \<open>
  One b0 volume with one warp in an empty directory: \<open>AttributeError\<close>, and the only file
  on disk is the rotated file of volume 0.
\<close>

theorem local_bvec_rotation_raises_witness:
  "[[0, 0, 0 :: real]] \<noteq> [] \<and> [''warp0.nii.gz''] \<noteq> []
   \<and> fst (local_bvec_rotation (0 :: nat) (\<lambda>v w. 1) (\<lambda>arrays. 2) Map.empty [[0, 0, 0]]
            [''warp0.nii.gz''] ''/work'' ''/work/rotated_local_bvecs.nii.gz'')
      = Inl AttributeError
   \<and> dom (snd (local_bvec_rotation (0 :: nat) (\<lambda>v w. 1) (\<lambda>arrays. 2) Map.empty [[0, 0, 0]]
            [''warp0.nii.gz''] ''/work'' ''/work/rotated_local_bvecs.nii.gz''))
      = {''/work/local_bvec_000_rotated.nii.gz''}"
proof -
  have h1: "[[0, 0, 0 :: real]] \<noteq> []" by simp
  have h2: "[''warp0.nii.gz''] \<noteq> []" by simp
  have z: "zero_padded 3 0 = ''000''"
    by (simp add: zero_padded_def decimal.simps numeral_eq_Suc)
  show ?thesis
    using local_bvec_rotation_raises [OF h1 h2, of "0 :: nat" "\<lambda>v w. 1" "\<lambda>arrays. 2" Map.empty
        "''/work''" "''/work/rotated_local_bvecs.nii.gz''"]
    by (simp add: path_join_def z)
qed

section \<open>Properties of the global gradient rotation\<close>

text \<open>
  C10 (as amended). The rows of the gradient table are paired with the transforms by
  position and no error is raised for lists of different lengths, as long as neither
  list is empty: the entries beyond the shorter list are dropped, the output file has
  three lines with min(len(bvecs), len(transforms)) columns each, column j holding the
  rotation of row j by transform j, and one command is recorded per column. With an
  empty list nothing is paired and \<open>np.row_stack\<close> raises ValueError.
\<close>

theorem bvec_rotation_pairs_positionally:
  assumes "original_bvecs \<noteq> []" "transforms \<noteq> []"
  shows "\<exists>rows cmds.
           bvec_rotation ants_rotated original_bvecs transforms = Inr (rows, cmds)
         \<and> length rows = 3
         \<and> (\<forall>r\<in>set rows. length r = min (length original_bvecs) (length transforms))
         \<and> length cmds = min (length original_bvecs) (length transforms)
         \<and> (\<forall>j<min (length original_bvecs) (length transforms).
              (rows ! 0 ! j, rows ! 1 ! j, rows ! 2 ! j)
                = fst (aattp_rotate_vec ants_rotated (original_bvecs ! j) (transforms ! j))
              \<and> cmds ! j
                = snd (aattp_rotate_vec ants_rotated (original_bvecs ! j) (transforms ! j)))"
proof -
  let ?pairs = "zip original_bvecs transforms"
  let ?rotated = "map (\<lambda>(bvec, transform). aattp_rotate_vec ants_rotated bvec transform) ?pairs"
  have ne: "map fst ?rotated \<noteq> []"
    using assms by (cases original_bvecs; cases transforms) auto
  have run: "bvec_rotation ants_rotated original_bvecs transforms
      = Inr (transposed (map fst ?rotated), map snd ?rotated)"
    using ne by (simp add: bvec_rotation_def row_stack3_def Let_def)
  have col: "\<forall>j<min (length original_bvecs) (length transforms).
      (transposed (map fst ?rotated) ! 0 ! j, transposed (map fst ?rotated) ! 1 ! j,
       transposed (map fst ?rotated) ! 2 ! j)
        = fst (aattp_rotate_vec ants_rotated (original_bvecs ! j) (transforms ! j))
      \<and> map snd ?rotated ! j
        = snd (aattp_rotate_vec ants_rotated (original_bvecs ! j) (transforms ! j))"
    by (simp add: transposed_def)
  have len: "\<forall>r\<in>set (transposed (map fst ?rotated)).
      length r = min (length original_bvecs) (length transforms)"
    by (simp add: transposed_def)
  show ?thesis
    unfolding run using col len by (simp add: transposed_def)
qed

text \<open>
  Three rows and two transforms: the third row is dropped and the file has two columns.
\<close>

theorem bvec_rotation_pairs_positionally_witness:
  "[(0, 0, 0), (0, 0, 0), (1, 0, 0) :: vec3] \<noteq> [] \<and> [''t0.mat'', ''t1.mat''] \<noteq> []
   \<and> bvec_rotation (\<lambda>v t. (v, ''ants '' @ t)) [(0, 0, 0), (0, 0, 0), (1, 0, 0)]
        [''t0.mat'', ''t1.mat'']
      = Inr ([[0, 0], [0, 0], [0, 0]], [''b0: No rotation'', ''b0: No rotation''])"
proof -
  have h1: "[(0, 0, 0), (0, 0, 0), (1, 0, 0) :: vec3] \<noteq> []" by simp
  have h2: "[''t0.mat'', ''t1.mat''] \<noteq> []" by simp
  show ?thesis
    using bvec_rotation_pairs_positionally [OF h1 h2, of "\<lambda>v t. (v, ''ants '' @ t)"]
    by (simp add: bvec_rotation_def row_stack3_def transposed_def aattp_rotate_vec_def
        sum_of_squares_def)
qed

text \<open>
  C10 as stated fails when the transform list is empty: it is shorter than the gradient
  table, the claim promises no error and a file of zero columns, and \<open>np.row_stack\<close> of
  the empty list raises ValueError.
\<close>

theorem bvec_rotation_empty_counterexample:
  "length ([] :: string list) < length [(1, 0, 0) :: vec3]
   \<and> bvec_rotation (\<lambda>v t. (v, ''ants '' @ t)) [(1, 0, 0)] [] = Inl ValueError"
  by (simp add: bvec_rotation_def row_stack3_def)

text \<open>
  The error does not depend on the table or on the tool: with either list empty nothing
  is paired.
\<close>

lemma bvec_rotation_empty_list:
  "bvec_rotation ants_rotated original_bvecs [] = Inl ValueError
   \<and> bvec_rotation ants_rotated [] transforms = Inl ValueError"
  by (simp add: bvec_rotation_def row_stack3_def)

section \<open>Properties of the DWI conformation\<close>

lemma ornt_transform_to_lps_rows:
  assumes "ornt_transform u (axcodes2ornt [c0, c1, c2]) (axcodes2ornt [AxL, AxP, AxS]) = Inr t"
  shows "length t = 3 \<and> (\<forall>p\<in>set t. fst p < 3)"
  using assms
  by (cases c0; cases c1; cases c2)
     (auto simp: ornt_transform_def axcodes2ornt_def)

lemma ornt_transform_to_lps_length:
  assumes "ornt_transform u (axcodes2ornt input_axcodes) (axcodes2ornt [AxL, AxP, AxS]) = Inr t"
  shows "length t = 3 \<and> (\<forall>p\<in>set t. fst p < 3)"
proof -
  have "length input_axcodes = 3"
    using assms by (auto simp: ornt_transform_def axcodes2ornt_def split: if_splits)
  then obtain c0 c1 c2 where "input_axcodes = [c0, c1, c2]"
    by (auto simp: length_Suc_conv numeral_3_eq_3)
  then show ?thesis using assms ornt_transform_to_lps_rows by blast
qed

lemma collect_flipped_rows:
  assumes "\<forall>p\<in>set t. fst p < length bvec_array"
  shows "collect (map (\<lambda>(axnum, flip).
                         case list_get bvec_array axnum of
                           Inl e \<Rightarrow> Inl e
                         | Inr row \<Rightarrow> Inr (map (\<lambda>x. x * flip) row)) t)
           = Inr (map (\<lambda>(axnum, flip). map (\<lambda>x. x * flip) (bvec_array ! axnum)) t)"
  using assms by (induction t) (auto simp: list_get_def)

text \<open>
  What the step computes: with the orientation transform \<open>transform_orientation\<close>, a
  gradient table whose number of rows differs from the number of pairs makes the step
  fail with its ValueError; otherwise row i of the saved table is the row of the input
  table at the first entry of pair i, multiplied by the second entry of pair i. The bval
  file of the results is the input bval file, also for a volume that is already
  (L, P, S).
\<close>

lemma ConformDwi_run_table:
  "(input_axcodes \<noteq> [AxL, AxP, AxS]
      \<and> ornt_transform uninitialised (axcodes2ornt input_axcodes) (axcodes2ornt [AxL, AxP, AxS])
          = Inr transform_orientation \<longrightarrow>
      (length bvec_array \<noteq> length transform_orientation \<longrightarrow>
         ConformDwi_run uninitialised input_axcodes bvec_array = Inl BvecFormatError)
      \<and> (length bvec_array = length transform_orientation \<longrightarrow>
         ConformDwi_run uninitialised input_axcodes bvec_array
           = Inr \<lparr> dwi_file = Out_fname, bvec_file = Out_bvec_fname, bval_file = Bval_fname,
                   output_array = Some (map (\<lambda>(axnum, flip). map (\<lambda>x. x * flip) (bvec_array ! axnum))
                                         transform_orientation) \<rparr>))
   \<and> ConformDwi_run uninitialised [AxL, AxP, AxS] bvec_array
       = Inr \<lparr> dwi_file = Fname, bvec_file = Bvec_fname, bval_file = Bval_fname,
               output_array = None \<rparr>"
proof (intro conjI impI)
  assume a: "input_axcodes \<noteq> [AxL, AxP, AxS]
      \<and> ornt_transform uninitialised (axcodes2ornt input_axcodes) (axcodes2ornt [AxL, AxP, AxS])
          = Inr transform_orientation"
  assume "length bvec_array \<noteq> length transform_orientation"
  then show "ConformDwi_run uninitialised input_axcodes bvec_array = Inl BvecFormatError"
    using a by (simp add: ConformDwi_run_def)
next
  assume a: "input_axcodes \<noteq> [AxL, AxP, AxS]
      \<and> ornt_transform uninitialised (axcodes2ornt input_axcodes) (axcodes2ornt [AxL, AxP, AxS])
          = Inr transform_orientation"
  assume len: "length bvec_array = length transform_orientation"
  have "\<forall>p\<in>set transform_orientation. fst p < length bvec_array"
    using ornt_transform_to_lps_length[of uninitialised input_axcodes transform_orientation]
      a len by simp
  from collect_flipped_rows[OF this] show "ConformDwi_run uninitialised input_axcodes bvec_array
      = Inr \<lparr> dwi_file = Out_fname, bvec_file = Out_bvec_fname, bval_file = Bval_fname,
              output_array = Some (map (\<lambda>(axnum, flip). map (\<lambda>x. x * flip) (bvec_array ! axnum))
                                    transform_orientation) \<rparr>"
    using a len by (simp add: ConformDwi_run_def)
next
  show "ConformDwi_run uninitialised [AxL, AxP, AxS] bvec_array
      = Inr \<lparr> dwi_file = Fname, bvec_file = Bvec_fname, bval_file = Bval_fname,
              output_array = None \<rparr>"
    by (simp add: ConformDwi_run_def)
qed

text \<open>
  Axis codes (R, A, S), the example of the specification: the transform flips the first
  two axes and keeps the third, the direction [1, 0, 0] becomes [-1, 0, 0], and the saved
  table is the table of the specification. A table of two rows is refused.
\<close>

lemma ConformDwi_run_ras:
  "ornt_transform uninitialised (axcodes2ornt [AxR, AxA, AxS]) (axcodes2ornt [AxL, AxP, AxS])
     = Inr [(0, -1), (1, -1), (2, 1)]
   \<and> ConformDwi_run uninitialised [AxR, AxA, AxS] [[1, 2], [0, 3], [0, 5]]
       = Inr \<lparr> dwi_file = Out_fname, bvec_file = Out_bvec_fname, bval_file = Bval_fname,
               output_array = Some [[-1, -2], [0, -3], [0, 5]] \<rparr>
   \<and> claimed_bvec_table [(0, -1), (1, -1), (2, 1)] [[1, 2], [0, 3], [0, 5]]
       = [[-1, -2], [0, -3], [0, 5]]
   \<and> ConformDwi_run uninitialised [AxR, AxA, AxS] [[1, 2], [0, 3]] = Inl BvecFormatError"
  by (simp add: ConformDwi_run_def ornt_transform_def axcodes2ornt_def list_get_def
      claimed_bvec_table_def upt_rec)

text \<open>
  C5 is about this step. For a volume with the axis codes (A, S, R) the orientation
  transform sends input axis 0 to output axis 1 with a flip, input axis 1 to output axis
  2 and input axis 2 to output axis 0 with a flip. The table with the rows [1, 2],
  [10, 20] and [100, 200] reoriented accordingly, one (source axis, sign) pair per output
  axis, has the rows [-100, -200], [-1, -2] and [10, 20]. The step reads each row of the
  transform as (source axis, sign) of the output axis with the number of that row and
  saves [-10, -20], [100, 200] and [-1, -2].
\<close>

theorem ConformDwi_permuted_axes:
  "ornt_transform uninitialised (axcodes2ornt [AxA, AxS, AxR]) (axcodes2ornt [AxL, AxP, AxS])
     = Inr [(1, -1), (2, 1), (0, -1)]
   \<and> ConformDwi_run uninitialised [AxA, AxS, AxR] [[1, 2], [10, 20], [100, 200]]
       = Inr \<lparr> dwi_file = Out_fname, bvec_file = Out_bvec_fname, bval_file = Bval_fname,
               output_array = Some [[-10, -20], [100, 200], [-1, -2]] \<rparr>
   \<and> claimed_bvec_table [(1, -1), (2, 1), (0, -1)] [[1, 2], [10, 20], [100, 200]]
       = [[-100, -200], [-1, -2], [10, 20]]"
  by (simp add: ConformDwi_run_def ornt_transform_def axcodes2ornt_def list_get_def
      claimed_bvec_table_def upt_rec)

text \<open>
  The same reading gives wrong signs when two axes are swapped and only one of them is
  flipped: for the axis codes (A, L, S) and the rows [1], [10] and [100] the reoriented
  table has the rows [10], [-1] and [100], and the step saves [-10], [1] and [100].
\<close>

lemma ConformDwi_swapped_axes:
  "ornt_transform uninitialised (axcodes2ornt [AxA, AxL, AxS]) (axcodes2ornt [AxL, AxP, AxS])
     = Inr [(1, -1), (0, 1), (2, 1)]
   \<and> ConformDwi_run uninitialised [AxA, AxL, AxS] [[1], [10], [100]]
       = Inr \<lparr> dwi_file = Out_fname, bvec_file = Out_bvec_fname, bval_file = Bval_fname,
               output_array = Some [[-10], [1], [100]] \<rparr>
   \<and> claimed_bvec_table [(1, -1), (0, 1), (2, 1)] [[1], [10], [100]] = [[10], [-1], [100]]"
  by (simp add: ConformDwi_run_def ornt_transform_def axcodes2ornt_def list_get_def
      claimed_bvec_table_def upt_rec)

section \<open>Properties of splitting and concatenating\<close>

lemma split_loop_files:
  "split_loop items bval_files bvec_files
     = Inr (bval_files @ map (\<lambda>(bval, bvec). [[bval]]) items,
            bvec_files @ map (\<lambda>(bval, bvec). map (\<lambda>x. [x]) bvec) items)"
  by (induction items arbitrary: bval_files bvec_files) (auto simp: savetxt_def)

lemma split_bvals_bvecs_files:
  assumes "length bvals = length bvecs"
  shows "split_bvals_bvecs bvals bvecs
           = Inr (map (\<lambda>bval. [[bval]]) bvals, map (\<lambda>bvec. map (\<lambda>x. [x]) bvec) bvecs)"
proof -
  have "map (\<lambda>(bval, bvec). [[bval]]) (zip bvals bvecs) = map (\<lambda>bval. [[bval]]) bvals"
    using assms by (induction bvals bvecs rule: list_induct2) simp_all
  moreover have "map (\<lambda>(bval, bvec). map (\<lambda>x. [x]) bvec) (zip bvals bvecs)
      = map (\<lambda>bvec. map (\<lambda>x. [x]) bvec) bvecs"
    using assms by (induction bvals bvecs rule: list_induct2) simp_all
  ultimately show ?thesis by (simp add: split_bvals_bvecs_def split_loop_files)
qed

lemma loadtxt_ndmin1_bval: "loadtxt_ndmin1 [[bval]] = Inr (Vector [bval])"
  by (simp add: loadtxt_ndmin1_def loadtxt_table_def squeeze_def atleast_1d_def)

lemma loadtxt_bvec:
  "loadtxt (map (\<lambda>x. [x]) [x, y, z]) = Inr (Vector [x, y, z])"
  by (simp add: loadtxt_def loadtxt_table_def squeeze_def)

lemma those_map_Some: "those (map (\<lambda>x. Some (f x)) xs) = Some (map f xs)"
  by (induction xs) simp_all

lemma np_concatenate_singletons:
  assumes "bvals \<noteq> []"
  shows "np_concatenate (map (\<lambda>bval. Vector [bval]) bvals) = Inr (Vector bvals)"
proof -
  have "those (map vector_items (map (\<lambda>bval. Vector [bval]) bvals))
      = Some (map (\<lambda>bval. [bval]) bvals)"
    by (simp add: o_def those_map_Some)
  moreover have "concat (map (\<lambda>bval. [bval]) bvals) = bvals"
    by (induction bvals) simp_all
  ultimately show ?thesis using assms by (simp add: np_concatenate_def)
qed

lemma concatenate_bvals_split:
  assumes "2 \<le> length bvals"
  shows "concatenate_bvals (map (\<lambda>bval. [[bval]]) bvals) = Inr (map (\<lambda>bval. [py_int bval]) bvals)"
proof -
  obtain b0 b1 rest where bvals: "bvals = b0 # b1 # rest"
    using assms by (cases bvals; cases "tl bvals") auto
  have load: "collect (map loadtxt_ndmin1 (map (\<lambda>bval. [[bval]]) bvals))
      = Inr (map (\<lambda>bval. Vector [bval]) bvals)"
    by (simp add: o_def loadtxt_ndmin1_bval collect_map_Inr)
  have cat: "np_concatenate (map (\<lambda>bval. Vector [bval]) bvals) = Inr (Vector bvals)"
    by (rule np_concatenate_singletons) (simp add: bvals)
  have sq: "squeeze (Vector bvals) = Vector bvals"
    by (simp add: bvals squeeze_def)
  have "concatenate_bvals (map (\<lambda>bval. [[bval]]) bvals) = savetxt_i (squeeze (Vector bvals))"
    unfolding concatenate_bvals_def load by (simp add: cat)
  then show ?thesis
    by (simp add: sq savetxt_i_def savetxt_def o_def)
qed

lemma row_stack_vectors:
  assumes "rows \<noteq> []" "\<forall>row\<in>set rows. length row = n"
  shows "row_stack (map Vector rows) = Inr (Matrix rows)"
proof -
  have a: "map atleast_2d (map Vector rows) = map (\<lambda>row. Matrix [row]) rows"
    by (simp add: atleast_2d_def)
  have v: "those (map vector_items (map (\<lambda>row. Matrix [row]) rows)) = None"
    using assms(1) by (cases rows) simp_all
  have m: "those (map matrix_rows (map (\<lambda>row. Matrix [row]) rows)) = Some (map (\<lambda>row. [row]) rows)"
    by (simp add: o_def those_map_Some)
  have c: "concat (map (\<lambda>row. [row]) rows) = rows"
    by (induction rows) simp_all
  have n: "list_all (\<lambda>m. ncols m = ncols (hd (map (\<lambda>row. [row]) rows))) (map (\<lambda>row. [row]) rows)"
    using assms by (cases rows) (auto simp: list_all_iff ncols_def)
  show ?thesis
    unfolding row_stack_def a np_concatenate_def v m
    using assms(1) n by (simp add: c)
qed

lemma concatenate_bvecs_split:
  assumes "bvecs \<noteq> []" "\<forall>bvec\<in>set bvecs. length bvec = 3"
  shows "concatenate_bvecs (map (\<lambda>bvec. map (\<lambda>x. [x]) bvec) bvecs) = Inr (Matrix bvecs)"
proof -
  have each: "\<And>bvec. bvec \<in> set bvecs \<Longrightarrow> loadtxt (map (\<lambda>x. [x]) bvec) = Inr (Vector bvec)"
  proof -
    fix bvec assume "bvec \<in> set bvecs"
    then have "length bvec = 3" using assms(2) by blast
    then obtain x y z where "bvec = [x, y, z]"
      by (auto simp: length_Suc_conv numeral_3_eq_3)
    then show "loadtxt (map (\<lambda>x. [x]) bvec) = Inr (Vector bvec)"
      using loadtxt_bvec by simp
  qed
  have "map loadtxt (map (\<lambda>bvec. map (\<lambda>x. [x]) bvec) bvecs) = map (\<lambda>bvec. Inr (Vector bvec)) bvecs"
    using each by (simp add: o_def)
  then have load: "collect (map loadtxt (map (\<lambda>bvec. map (\<lambda>x. [x]) bvec) bvecs))
      = Inr (map Vector bvecs)"
    by (simp only: collect_map_Inr)
  show ?thesis
    unfolding concatenate_bvecs_def load
    using row_stack_vectors[OF assms] by simp
qed

lemma py_int_of_int: "py_int (of_int k) = k"
  by (simp add: py_int_def)

lemma written_integers_read_back:
  assumes "\<forall>bval\<in>set bvals. bval \<in> \<int>"
  shows "map (map real_of_int) (map (\<lambda>bval. [py_int bval]) bvals) = map (\<lambda>bval. [bval]) bvals"
proof -
  have "\<And>bval. bval \<in> set bvals \<Longrightarrow> real_of_int (py_int bval) = bval"
  proof -
    fix bval assume "bval \<in> set bvals"
    then obtain k where "bval = of_int k" using assms by (auto elim: Ints_cases)
    then show "real_of_int (py_int bval) = bval" by (simp add: py_int_of_int)
  qed
  then show ?thesis by simp
qed

text \<open>
  With a single volume \<open>concatenate_bvals\<close> does not return: the concatenated array has
  one entry, \<open>squeeze\<close> makes it zero-dimensional and \<open>np.savetxt\<close> refuses it.
\<close>

lemma concatenate_bvals_single_volume:
  "split_bvals_bvecs [bval] [bvec] = Inr ([[[bval]]], [map (\<lambda>x. [x]) bvec])
   \<and> concatenate_bvals [[[bval]]] = Inl ValueError"
  by (simp add: split_bvals_bvecs_def savetxt_def concatenate_bvals_def loadtxt_ndmin1_def
      loadtxt_table_def squeeze_def atleast_1d_def np_concatenate_def savetxt_i_def)

text \<open>
  C2 (as amended). A gradient table of N rows, b-values \<open>bvals\<close> and three-component
  rows \<open>bvecs\<close>, is split into N bval files and N bvec files. Concatenating the bvec
  files gives back the rows of the table, same values in the same order, for every N of
  at least 1. Concatenating the bval files, for N of at least 2, writes every b-value in
  the original order truncated to an integer (format \<open>%i\<close>); the b-values are reproduced
  exactly when they are integers.
\<close>

theorem split_concatenate_round_trip:
  assumes "length bvals = length bvecs" "\<forall>bvec\<in>set bvecs. length bvec = 3"
  shows "\<exists>bval_files bvec_files.
           split_bvals_bvecs bvals bvecs = Inr (bval_files, bvec_files)
         \<and> length bval_files = length bvals \<and> length bvec_files = length bvecs
         \<and> (1 \<le> length bvecs \<longrightarrow> concatenate_bvecs bvec_files = Inr (Matrix bvecs))
         \<and> (2 \<le> length bvals \<longrightarrow>
              concatenate_bvals bval_files = Inr (map (\<lambda>bval. [py_int bval]) bvals))
         \<and> (2 \<le> length bvals \<and> (\<forall>bval\<in>set bvals. bval \<in> \<int>) \<longrightarrow>
              (\<exists>written. concatenate_bvals bval_files = Inr written
                 \<and> map (map real_of_int) written = map (\<lambda>bval. [bval]) bvals))"
proof -
  let ?bval_files = "map (\<lambda>bval. [[bval]]) bvals"
  let ?bvec_files = "map (\<lambda>bvec. map (\<lambda>x. [x]) bvec) bvecs"
  have split: "split_bvals_bvecs bvals bvecs = Inr (?bval_files, ?bvec_files)"
    using split_bvals_bvecs_files[OF assms(1)] .
  have vecs: "1 \<le> length bvecs \<longrightarrow> concatenate_bvecs ?bvec_files = Inr (Matrix bvecs)"
  proof
    assume "1 \<le> length bvecs"
    then have "bvecs \<noteq> []" by auto
    from concatenate_bvecs_split[OF this assms(2)]
    show "concatenate_bvecs ?bvec_files = Inr (Matrix bvecs)" .
  qed
  have vals: "2 \<le> length bvals \<longrightarrow>
      concatenate_bvals ?bval_files = Inr (map (\<lambda>bval. [py_int bval]) bvals)"
    using concatenate_bvals_split by blast
  have ints: "2 \<le> length bvals \<and> (\<forall>bval\<in>set bvals. bval \<in> \<int>) \<longrightarrow>
      (\<exists>written. concatenate_bvals ?bval_files = Inr written
         \<and> map (map real_of_int) written = map (\<lambda>bval. [bval]) bvals)"
    using concatenate_bvals_split written_integers_read_back by blast
  show ?thesis
    using split vecs vals ints
    by (intro exI[where x = ?bval_files] exI[where x = ?bvec_files]) simp
qed

text \<open>
  A table of two volumes, a b0 volume and a volume of b-value 1000 along x.
\<close>

theorem split_concatenate_round_trip_witness:
  "length [0, 1000 :: real] = length [[0, 0, 0], [1, 0, 0 :: real]]
   \<and> split_bvals_bvecs [0, 1000] [[0, 0, 0], [1, 0, 0]]
       = Inr ([[[0]], [[1000]]], [[[0], [0], [0]], [[1], [0], [0]]])
   \<and> concatenate_bvecs [[[0], [0], [0]], [[1], [0], [0]]] = Inr (Matrix [[0, 0, 0], [1, 0, 0]])
   \<and> concatenate_bvals [[[0]], [[1000]]] = Inr [[0], [1000]]"
proof -
  have h1: "length [0, 1000 :: real] = length [[0, 0, 0], [1, 0, 0 :: real]]" by simp
  have h2: "\<forall>bvec\<in>set [[0, 0, 0], [1, 0, 0 :: real]]. length bvec = 3" by simp
  have s: "split_bvals_bvecs [0, 1000] [[0, 0, 0], [1, 0, 0]]
      = Inr ([[[0]], [[1000]]], [[[0], [0], [0]], [[1], [0], [0]]])"
    by (simp add: split_bvals_bvecs_def savetxt_def)
  from split_concatenate_round_trip [OF h1 h2] obtain bval_files bvec_files
    where r: "split_bvals_bvecs [0, 1000] [[0, 0, 0], [1, 0, 0]] = Inr (bval_files, bvec_files)"
      "1 \<le> length [[0, 0, 0], [1, 0, 0 :: real]] \<longrightarrow>
         concatenate_bvecs bvec_files = Inr (Matrix [[0, 0, 0], [1, 0, 0]])"
      "2 \<le> length [0, 1000 :: real] \<longrightarrow>
         concatenate_bvals bval_files = Inr (map (\<lambda>bval. [py_int bval]) [0, 1000])"
    by blast
  have f: "bval_files = [[[0]], [[1000]]]" "bvec_files = [[[0], [0], [0]], [[1], [0], [0]]]"
    using r(1) s by simp_all
  show ?thesis
    using h1 s r(2,3) unfolding f by (simp add: py_int_def)
qed

text \<open>
  C2 as stated fails for a b-value that is not an integer: the table with the b-values
  0 and 999.5 comes back with 0 and 999.
\<close>

theorem split_concatenate_bvals_counterexample:
  "split_bvals_bvecs [0, 1999 / 2] [[0, 0, 0], [1, 0, 0]]
     = Inr ([[[0]], [[1999 / 2]]], [[[0], [0], [0]], [[1], [0], [0]]])
   \<and> concatenate_bvals [[[0]], [[1999 / 2]]] = Inr [[0], [999]]
   \<and> map (map real_of_int) [[0], [999]] \<noteq> [[0], [1999 / 2]]"
  by (simp add: split_bvals_bvecs_def savetxt_def concatenate_bvals_def loadtxt_ndmin1_def
      loadtxt_table_def squeeze_def atleast_1d_def np_concatenate_def savetxt_i_def py_int_def)

section \<open>Properties of the principal directions\<close>

lemma masked_assign_inside:
  assumes "length data = length mask_data" "length output_data = length mask_data"
    and "p < length mask_data" "mask_data ! p"
  shows "masked_assign mask_data output_data (map f (map snd (filter fst (zip mask_data data)))) ! p
           = f (data ! p)"
  using assms
proof (induction mask_data arbitrary: data output_data p)
  case Nil
  then show ?case by simp
next
  case (Cons m mask_data)
  obtain d data' where data: "data = d # data'" using Cons.prems(1) by (cases data) auto
  obtain out output' where out: "output_data = out # output'"
    using Cons.prems(2) by (cases output_data) auto
  have len: "length data' = length mask_data" "length output' = length mask_data"
    using Cons.prems(1,2) data out by simp_all
  show ?case
  proof (cases p)
    case 0
    then show ?thesis using Cons.prems(4) data out by simp
  next
    case (Suc q)
    then have q: "q < length mask_data" "mask_data ! q" using Cons.prems(3,4) by simp_all
    from Cons.IH[OF len q]
    show ?thesis using Suc data out by (cases m) simp_all
  qed
qed

lemma masked_assign_length:
  "length (masked_assign mask_data output_data vals) = length output_data"
proof (induction mask_data output_data vals rule: masked_assign.induct)
  case (1 m mask_data out output_data vals)
  then show ?case by (cases vals) auto
qed simp_all

lemma mat_vec_vadd: "mat_vec T (vadd u v) = vadd (mat_vec T u) (mat_vec T v)"
  by (cases T; cases u; cases v) (auto simp: mat_vec_def vadd_def algebra_simps)

lemma mat_vec_scaled: "mat_vec T (scaled k u) = scaled k (mat_vec T u)"
  by (cases T; cases u) (auto simp: mat_vec_def scaled_def algebra_simps)

lemma dot_vadd: "dot u (vadd v w) = dot u v + dot u w"
  by (cases u; cases v; cases w) (auto simp: dot_def vadd_def algebra_simps)

lemma dot_scaled: "dot u (scaled k v) = k * dot u v"
  by (cases u; cases v) (auto simp: dot_def scaled_def algebra_simps)

lemma dot_commute: "dot u v = dot v u"
  by (cases u; cases v) (auto simp: dot_def algebra_simps)

lemma expand_in_columns:
  assumes "case E of (r0, r1, r2) \<Rightarrow> orthonormal r0 r1 r2"
  shows "w = vadd (scaled (dot (column0 E) w) (column0 E))
              (vadd (scaled (dot (column1 E) w) (column1 E))
                    (scaled (dot (column2 E) w) (column2 E)))"
proof -
  obtain a b c d e f g h i where E: "E = ((a, b, c), (d, e, f), (g, h, i))"
    by (metis prod_cases3)
  obtain x y z where w: "w = (x, y, z)" by (metis prod_cases3)
  have r: "a * a + b * b + c * c = 1" "d * d + e * e + f * f = 1" "g * g + h * h + i * i = 1"
    "a * d + b * e + c * f = 0" "a * g + b * h + c * i = 0" "d * g + e * h + f * i = 0"
    using assms by (simp_all add: E orthonormal_def dot_def)
  have "(a * x + d * y + g * z) * a + ((b * x + e * y + h * z) * b + (c * x + f * y + i * z) * c)
      = (a * a + b * b + c * c) * x + (a * d + b * e + c * f) * y + (a * g + b * h + c * i) * z"
    by (simp add: algebra_simps)
  then have X: "(a * x + d * y + g * z) * a + ((b * x + e * y + h * z) * b + (c * x + f * y + i * z) * c) = x"
    by (simp add: r)
  have "(a * x + d * y + g * z) * d + ((b * x + e * y + h * z) * e + (c * x + f * y + i * z) * f)
      = (a * d + b * e + c * f) * x + (d * d + e * e + f * f) * y + (d * g + e * h + f * i) * z"
    by (simp add: algebra_simps)
  then have Y: "(a * x + d * y + g * z) * d + ((b * x + e * y + h * z) * e + (c * x + f * y + i * z) * f) = y"
    by (simp add: r)
  have "(a * x + d * y + g * z) * g + ((b * x + e * y + h * z) * h + (c * x + f * y + i * z) * i)
      = (a * g + b * h + c * i) * x + (d * g + e * h + f * i) * y + (g * g + h * h + i * i) * z"
    by (simp add: algebra_simps)
  then have Z: "(a * x + d * y + g * z) * g + ((b * x + e * y + h * z) * h + (c * x + f * y + i * z) * i) = z"
    by (simp add: r)
  show ?thesis
    unfolding E w column0_def column1_def column2_def dot_def scaled_def vadd_def
    using X Y Z by simp
qed

lemma eigenvalue_is_listed:
  assumes d: "dipy_eigenvectors T E (m0, m1, m2)"
    and w: "w \<noteq> (0, 0, 0)" and ev: "mat_vec T w = scaled \<mu> w"
  shows "\<mu> = m0 \<or> \<mu> = m1 \<or> \<mu> = m2"
proof -
  let ?e0 = "column0 E" and ?e1 = "column1 E" and ?e2 = "column2 E"
  let ?c0 = "dot ?e0 w" and ?c1 = "dot ?e1 w" and ?c2 = "dot ?e2 w"
  have cols: "orthonormal ?e0 ?e1 ?e2" and rows: "case E of (r0, r1, r2) \<Rightarrow> orthonormal r0 r1 r2"
    and e: "mat_vec T ?e0 = scaled m0 ?e0" "mat_vec T ?e1 = scaled m1 ?e1"
      "mat_vec T ?e2 = scaled m2 ?e2"
    using d by (simp_all add: dipy_eigenvectors_def orthogonal_matrix_def)
  have ex: "w = vadd (scaled ?c0 ?e0) (vadd (scaled ?c1 ?e1) (scaled ?c2 ?e2))"
    by (rule expand_in_columns[OF rows])
  have "mat_vec T w = mat_vec T (vadd (scaled ?c0 ?e0) (vadd (scaled ?c1 ?e1) (scaled ?c2 ?e2)))"
    using ex by simp
  then have Tw: "mat_vec T w
      = vadd (scaled ?c0 (scaled m0 ?e0)) (vadd (scaled ?c1 (scaled m1 ?e1)) (scaled ?c2 (scaled m2 ?e2)))"
    by (simp only: mat_vec_vadd mat_vec_scaled e)
  have o: "dot ?e0 ?e0 = 1" "dot ?e1 ?e1 = 1" "dot ?e2 ?e2 = 1"
    "dot ?e0 ?e1 = 0" "dot ?e0 ?e2 = 0" "dot ?e1 ?e2 = 0"
    "dot ?e1 ?e0 = 0" "dot ?e2 ?e0 = 0" "dot ?e2 ?e1 = 0"
    using cols by (simp_all add: orthonormal_def dot_commute)
  have k0: "dot ?e0 (mat_vec T w) = ?c0 * m0"
    unfolding Tw by (simp add: dot_vadd dot_scaled o)
  have k1: "dot ?e1 (mat_vec T w) = ?c1 * m1"
    unfolding Tw by (simp add: dot_vadd dot_scaled o)
  have k2: "dot ?e2 (mat_vec T w) = ?c2 * m2"
    unfolding Tw by (simp add: dot_vadd dot_scaled o)
  have z0: "?c0 * m0 = \<mu> * ?c0" using k0 unfolding ev by (auto simp: dot_scaled)
  have z1: "?c1 * m1 = \<mu> * ?c1" using k1 unfolding ev by (auto simp: dot_scaled)
  have z2: "?c2 * m2 = \<mu> * ?c2" using k2 unfolding ev by (auto simp: dot_scaled)
  have "?c0 \<noteq> 0 \<or> ?c1 \<noteq> 0 \<or> ?c2 \<noteq> 0"
  proof (rule ccontr)
    assume "\<not> (?c0 \<noteq> 0 \<or> ?c1 \<noteq> 0 \<or> ?c2 \<noteq> 0)"
    then have "?c0 = 0" "?c1 = 0" "?c2 = 0" by simp_all
    then have "w = vadd (scaled 0 ?e0) (vadd (scaled 0 ?e1) (scaled 0 ?e2))"
      using ex by simp
    then have "w = (0, 0, 0)"
      by (cases ?e0; cases ?e1; cases ?e2) (simp add: scaled_def vadd_def)
    then show False using w by simp
  qed
  then show ?thesis using z0 z1 z2 by auto
qed

lemma largest_eigenvalue:
  assumes "dipy_eigenvectors T E (m0, m1, m2)"
    and "w \<noteq> (0, 0, 0)" and "mat_vec T w = scaled \<mu> w"
  shows "\<mu> \<le> m0"
proof -
  have "m1 \<le> m0" "m2 \<le> m1" using assms(1) by (simp_all add: dipy_eigenvectors_def)
  then show ?thesis using eigenvalue_is_listed[OF assms] by auto
qed

lemma normalized_unit_vector:
  assumes "dot v v = 1"
  shows "normalized_vector v = Some v"
  using assms by (cases v) (simp add: normalized_vector_def dot_def Let_def)

lemma reorient_tensor_image_inside:
  assumes "nx \<noteq> 1" "ny \<noteq> 1" "nz \<noteq> 1"
    and "length mask_values = nx * ny * nz" "length reoriented_tensor_data = nx * ny * nz"
    and "p < length mask_values" "0 < mask_values ! p"
  shows "\<exists>output_data.
           reorient_tensor_image decompose_tensor (nx, ny, nz) mask_values reoriented_tensor_data
             = Inr output_data
         \<and> length output_data = length mask_values
         \<and> output_data ! p
             = normalized_vector
                 (column0 (snd (decompose_tensor (tensor_from_vec (reoriented_tensor_data ! p)))))"
proof -
  let ?mask_data = "map (\<lambda>m. m > 0) mask_values"
  let ?f = "\<lambda>row. normalized_vector (column0 (snd (decompose_tensor (tensor_from_vec row))))"
  let ?out = "masked_assign ?mask_data (replicate (length mask_values) (Some (0, 0, 0)))
          (map ?f (map snd (filter fst (zip ?mask_data reoriented_tensor_data))))"
  have run: "reorient_tensor_image decompose_tensor (nx, ny, nz) mask_values reoriented_tensor_data
      = Inr ?out"
    using assms(1-5) by (simp add: reorient_tensor_image_def Let_def o_def case_prod_unfold)
  have at: "?out ! p = ?f (reoriented_tensor_data ! p)"
    by (rule masked_assign_inside) (use assms in simp_all)
  have len: "length ?out = length mask_values"
    by (simp add: masked_assign_length)
  show ?thesis using run at len by blast
qed

text \<open>
  C7 (as amended). The tensor of a voxel is rebuilt from its six stored components
  \<open>[dxx, dxy, dyy, dxz, dyz, dzz]\<close> as \<open>[[xx,xy,xz],[xy,yy,yz],[xz,yz,zz]]\<close>. On a grid
  with no axis of length one, for every voxel inside the mask, the locally rotated
  direction is the first column \<open>evecs[:, 0]\<close> of the eigenvector matrix that dipy's
  \<open>decompose_tensor\<close> returns for that tensor, whose columns are ordered from the largest
  eigenvalue to the smallest: a vector of length one that the tensor maps to \<open>m0\<close> times
  itself, where no eigenvalue of the tensor is larger than \<open>m0\<close>.
\<close>

theorem reorient_tensor_image_principal_direction:
  assumes "nx \<noteq> 1" "ny \<noteq> 1" "nz \<noteq> 1"
    and "length mask_values = nx * ny * nz" "length reoriented_tensor_data = nx * ny * nz"
    and "p < length mask_values" "0 < mask_values ! p"
    and "dipy_eigenvectors (tensor_from_vec (reoriented_tensor_data ! p))
           (snd (decompose_tensor (tensor_from_vec (reoriented_tensor_data ! p)))) (m0, m1, m2)"
  shows "tensor_from_vec (dxx, dxy, dyy, dxz, dyz, dzz)
           = ((dxx, dxy, dxz), (dxy, dyy, dyz), (dxz, dyz, dzz))
       \<and> (\<exists>output_data direction.
             reorient_tensor_image decompose_tensor (nx, ny, nz) mask_values
               reoriented_tensor_data = Inr output_data
           \<and> length output_data = length mask_values
           \<and> output_data ! p = Some direction
           \<and> direction
               = column0 (snd (decompose_tensor (tensor_from_vec (reoriented_tensor_data ! p))))
           \<and> dot direction direction = 1
           \<and> mat_vec (tensor_from_vec (reoriented_tensor_data ! p)) direction
               = scaled m0 direction
           \<and> (\<forall>\<mu> w. w \<noteq> (0, 0, 0)
                  \<and> mat_vec (tensor_from_vec (reoriented_tensor_data ! p)) w = scaled \<mu> w
                \<longrightarrow> \<mu> \<le> m0))"
proof (intro conjI)
  show "tensor_from_vec (dxx, dxy, dyy, dxz, dyz, dzz)
      = ((dxx, dxy, dxz), (dxy, dyy, dyz), (dxz, dyz, dzz))"
    by (simp add: tensor_from_vec_def)
next
  let ?T = "tensor_from_vec (reoriented_tensor_data ! p)"
  let ?E = "snd (decompose_tensor ?T)"
  have unit: "dot (column0 ?E) (column0 ?E) = 1"
    and eig: "mat_vec ?T (column0 ?E) = scaled m0 (column0 ?E)"
    using assms(8) by (simp_all add: dipy_eigenvectors_def orthogonal_matrix_def orthonormal_def)
  from reorient_tensor_image_inside[OF assms(1-7), of decompose_tensor] obtain output_data
    where out: "reorient_tensor_image decompose_tensor (nx, ny, nz) mask_values
        reoriented_tensor_data = Inr output_data"
      "length output_data = length mask_values"
      "output_data ! p = normalized_vector (column0 ?E)"
    by blast
  have at: "output_data ! p = Some (column0 ?E)"
    using out(3) normalized_unit_vector[OF unit] by simp
  have largest: "\<forall>\<mu> w. w \<noteq> (0, 0, 0) \<and> mat_vec ?T w = scaled \<mu> w \<longrightarrow> \<mu> \<le> m0"
    using largest_eigenvalue[OF assms(8)] by blast
  show "\<exists>output_data direction.
      reorient_tensor_image decompose_tensor (nx, ny, nz) mask_values reoriented_tensor_data
        = Inr output_data
      \<and> length output_data = length mask_values
      \<and> output_data ! p = Some direction
      \<and> direction = column0 ?E
      \<and> dot direction direction = 1
      \<and> mat_vec ?T direction = scaled m0 direction
      \<and> (\<forall>\<mu> w. w \<noteq> (0, 0, 0) \<and> mat_vec ?T w = scaled \<mu> w \<longrightarrow> \<mu> \<le> m0)"
    using out(1,2) at unit eig largest by blast
qed

text \<open>
  The grid of two voxels along every axis, with the tensor diag(1, 2, 3) at the voxel
  inside the mask and the decomposition dipy returns for it. The direction written at
  that voxel is z, the eigenvector of the eigenvalue 3; the others stay zero.
\<close>

theorem reorient_tensor_image_principal_direction_witness:
  "length example_mask = 2 * 2 * 2 \<and> length example_tensor_data = 2 * 2 * 2
   \<and> (5 :: nat) < length example_mask \<and> 0 < example_mask ! 5
   \<and> dipy_eigenvectors (tensor_from_vec (example_tensor_data ! 5))
        (snd (example_decompose_tensor (tensor_from_vec (example_tensor_data ! 5)))) (3, 2, 1)
   \<and> reorient_tensor_image example_decompose_tensor (2, 2, 2) example_mask example_tensor_data
      = Inr [Some (0, 0, 0), Some (0, 0, 0), Some (0, 0, 0), Some (0, 0, 0), Some (0, 0, 0),
             Some (0, 0, 1), Some (0, 0, 0), Some (0, 0, 0)]
   \<and> mat_vec (tensor_from_vec (example_tensor_data ! 5)) (0, 0, 1) = scaled 3 (0, 0, 1)"
proof -
  have n: "(2 :: nat) \<noteq> 1" by simp
  have h4: "length example_mask = 2 * 2 * 2" by (simp add: example_mask_def)
  have h5: "length example_tensor_data = 2 * 2 * 2" by (simp add: example_tensor_data_def)
  have h6: "(5 :: nat) < length example_mask" by (simp add: example_mask_def)
  have h7: "0 < example_mask ! 5" by (simp add: example_mask_def)
  have t: "tensor_from_vec (example_tensor_data ! 5) = ((1, 0, 0), (0, 2, 0), (0, 0, 3))"
    by (simp add: example_tensor_data_def tensor_from_vec_def)
  have h8: "dipy_eigenvectors (tensor_from_vec (example_tensor_data ! 5))
      (snd (example_decompose_tensor (tensor_from_vec (example_tensor_data ! 5)))) (3, 2, 1)"
    unfolding t
    by (simp add: example_decompose_tensor_def example_evecs_def dipy_eigenvectors_def
        orthogonal_matrix_def orthonormal_def dot_def mat_vec_def scaled_def
        column0_def column1_def column2_def)
  have run: "reorient_tensor_image example_decompose_tensor (2, 2, 2) example_mask
      example_tensor_data
      = Inr [Some (0, 0, 0), Some (0, 0, 0), Some (0, 0, 0), Some (0, 0, 0), Some (0, 0, 0),
             Some (0, 0, 1), Some (0, 0, 0), Some (0, 0, 0)]"
    by (simp add: reorient_tensor_image_def example_mask_def example_tensor_data_def
        example_decompose_tensor_def example_evecs_def tensor_from_vec_def column0_def
        normalized_vector_def)
  have m: "mat_vec (tensor_from_vec (example_tensor_data ! 5)) (0, 0, 1) = scaled 3 (0, 0, 1)"
    unfolding t by (simp add: mat_vec_def scaled_def)
  show ?thesis
    using h4 h5 h6 h7 h8 run m
      reorient_tensor_image_principal_direction
        [where decompose_tensor = example_decompose_tensor and nx = 2 and ny = 2 and nz = 2
           and mask_values = example_mask and reoriented_tensor_data = example_tensor_data
           and p = 5 and ?m0.0 = 3 and ?m1.0 = 2 and ?m2.0 = 1, OF n n n h4 h5 h6 h7 h8]
    by simp
qed

text \<open>
  C7 as stated fails: it takes the principal direction to be the last eigenvector. On the
  same grid and tensor, with the decomposition dipy returns, the last column of the
  eigenvector matrix is x, the eigenvector of the smallest eigenvalue 1, and the
  direction the code writes at the voxel inside the mask is the first column z.
\<close>

theorem reorient_tensor_image_last_eigenvector_counterexample:
  "dipy_eigenvectors (tensor_from_vec (example_tensor_data ! 5))
     (snd (example_decompose_tensor (tensor_from_vec (example_tensor_data ! 5)))) (3, 2, 1)
   \<and> reorient_tensor_image example_decompose_tensor (2, 2, 2) example_mask example_tensor_data
      = Inr [Some (0, 0, 0), Some (0, 0, 0), Some (0, 0, 0), Some (0, 0, 0), Some (0, 0, 0),
             Some (0, 0, 1), Some (0, 0, 0), Some (0, 0, 0)]
   \<and> normalized_vector
        (column2 (snd (example_decompose_tensor (tensor_from_vec (example_tensor_data ! 5)))))
      = Some (1, 0, 0)
   \<and> mat_vec (tensor_from_vec (example_tensor_data ! 5)) (1, 0, 0) = scaled 1 (1, 0, 0)
   \<and> Some (0, 0, 1 :: real) \<noteq> Some (1, 0, 0 :: real)"
proof -
  have t: "tensor_from_vec (example_tensor_data ! 5) = ((1, 0, 0), (0, 2, 0), (0, 0, 3))"
    by (simp add: example_tensor_data_def tensor_from_vec_def)
  have d: "dipy_eigenvectors (tensor_from_vec (example_tensor_data ! 5))
      (snd (example_decompose_tensor (tensor_from_vec (example_tensor_data ! 5)))) (3, 2, 1)"
    unfolding t
    by (simp add: example_decompose_tensor_def example_evecs_def dipy_eigenvectors_def
        orthogonal_matrix_def orthonormal_def dot_def mat_vec_def scaled_def
        column0_def column1_def column2_def)
  have run: "reorient_tensor_image example_decompose_tensor (2, 2, 2) example_mask
      example_tensor_data
      = Inr [Some (0, 0, 0), Some (0, 0, 0), Some (0, 0, 0), Some (0, 0, 0), Some (0, 0, 0),
             Some (0, 0, 1), Some (0, 0, 0), Some (0, 0, 0)]"
    by (simp add: reorient_tensor_image_def example_mask_def example_tensor_data_def
        example_decompose_tensor_def example_evecs_def tensor_from_vec_def column0_def
        normalized_vector_def)
  have last: "normalized_vector
      (column2 (snd (example_decompose_tensor (tensor_from_vec (example_tensor_data ! 5)))))
      = Some (1, 0, 0)"
    by (simp add: example_decompose_tensor_def example_evecs_def column2_def
        normalized_vector_def)
  have small: "mat_vec (tensor_from_vec (example_tensor_data ! 5)) (1, 0, 0) = scaled 1 (1, 0, 0)"
    unfolding t by (simp add: mat_vec_def scaled_def)
  show ?thesis using d run last small by simp
qed

text \<open>
  On a grid with an axis of length one the step does not get that far: the squeezed
  tensor data has lost that axis and indexing it with the mask raises IndexError.
\<close>

lemma reorient_tensor_image_singleton_axis:
  "reorient_tensor_image decompose_tensor (2, 1, 1) [0, 1]
     [(0, 0, 0, 0, 0, 0), (1, 0, 2, 0, 0, 3)] = Inl IndexError"
  by (simp add: reorient_tensor_image_def)

section \<open>Properties of the anatomical conformation\<close>

lemma allclose_vector_refl: "0 \<le> atol \<Longrightarrow> allclose_vector atol z z"
  by (simp add: allclose_vector_def isclose_def list_all2_same)

lemma lps_ornt_xfm:
  "inv_ornt_aff [(0, -1), (1, -1), (2, 1)] [sx, sy, sz]
     = Inr [[-1, 0, 0, real sx - 1], [0, -1, 0, real sy - 1], [0, 0, 1, 0], [0, 0, 0, 1]]"
  by (simp add: inv_ornt_aff_def np_dot_def np_eye_def upt_rec Let_def field_simps)

lemma ornt2axcodes_lps:
  assumes "ornt2axcodes ornt = Inr [AxL, AxP, AxS]"
  shows "ornt = [(0, -1), (1, -1), (2, 1)]"
proof -
  have one: "\<And>pair c. ornt2axcode pair = Inr c
      \<Longrightarrow> (c = AxL \<longrightarrow> pair = (0, -1)) \<and> (c = AxP \<longrightarrow> pair = (1, -1))
          \<and> (c = AxS \<longrightarrow> pair = (2, 1))"
    by (auto simp: ornt2axcode_def split: if_splits prod.splits)
  have len: "\<And>rs xs. collect rs = Inr (xs :: axcode list) \<Longrightarrow> length rs = length xs"
  proof -
    fix rs :: "(error + axcode) list" and xs
    show "collect rs = Inr xs \<Longrightarrow> length rs = length xs"
      by (induction rs arbitrary: xs rule: collect.induct) (auto split: sum.splits)
  qed
  have "length ornt = 3" using len[of "map ornt2axcode ornt"] assms
    by (simp add: ornt2axcodes_def)
  then obtain p0 p1 p2 where o: "ornt = [p0, p1, p2]"
    by (auto simp: length_Suc_conv numeral_3_eq_3)
  have "ornt2axcode p0 = Inr AxL \<and> ornt2axcode p1 = Inr AxP \<and> ornt2axcode p2 = Inr AxS"
    using assms unfolding o ornt2axcodes_def
    by (auto split: sum.splits elim!: collect.elims)
  then show ?thesis using one unfolding o by blast
qed

lemma to_lps_lps:
  assumes "aff2axcodes io_orientation (img_affine input_img) = Inr [AxL, AxP, AxS]"
  shows "to_lps io_orientation as_reoriented uninitialised input_img = Inr (input_img, False)"
  using assms by (simp add: to_lps_def)

lemma np_dot_eye4:
  "np_dot [[b00, b01, b02, b03], [b10, b11, b12, b13], [b20, b21, b22, b23], [b30, b31, b32, b33]]
     (np_eye 4)
   = [[b00, b01, b02, b03], [b10, b11, b12, b13], [b20, b21, b22, b23], [b30, b31, b32, b33]]"
  by (simp add: np_dot_def np_eye_def upt_rec)

lemma flipped_not_close:
  assumes "1 / 100000000 < \<bar>a00\<bar>"
  shows "\<not> allclose (1 / 100000000)
           (np_dot [[a00, a01, a02, a03], [a10, a11, a12, a13], [a20, a21, a22, a23],
                    [a30, a31, a32, a33]]
              [[-1, 0, 0, tx], [0, -1, 0, ty], [0, 0, 1, 0], [0, 0, 0, 1]])
           [[a00, a01, a02, a03], [a10, a11, a12, a13], [a20, a21, a22, a23],
            [a30, a31, a32, a33]]"
proof -
  have "\<not> isclose (1 / 100000000) (- a00) a00"
    using assms by (simp add: isclose_def)
  then show ?thesis
    by (simp add: allclose_def allclose_vector_def np_dot_def upt_rec)
qed

text \<open>
  C4 is about this step. For an image that is already in (L, P, S) orientation, with the
  target zooms and the target shape its own, nothing is reoriented, rescaled or resized,
  so the target affine is the affine of the image. The step still builds \<open>ornt_xfm\<close>
  from the orientation of the affine relative to (R, A, S), which flips the first two
  axes, and takes it as the transform. The product of the affine and the transform then
  has the first entry of the affine with the opposite sign, the comparison with the
  target affine fails, and the assertion raises: no transform is written.
\<close>

theorem Conform_lps_input_fails_assertion:
  assumes "aff2axcodes io_orientation (img_affine orig_img) = Inr [AxL, AxP, AxS]"
    and "img_affine orig_img
           = [[a00, a01, a02, a03], [a10, a11, a12, a13], [a20, a21, a22, a23],
              [a30, a31, a32, a33]]"
    and "img_shape orig_img = [sx, sy, sz]"
    and "target_shape = [sx, sy, sz]"
    and "take 3 (img_zooms orig_img) = target_zooms"
    and "1 / 100000000 < \<bar>a00\<bar>"
  shows "Conform_run io_orientation as_reoriented uninitialised linalg_inv orig_img
           target_zooms target_shape = Inl AssertionError"
proof -
  have ornt: "io_orientation (img_affine orig_img) = [(0, -1), (1, -1), (2, 1)]"
    using assms(1) ornt2axcodes_lps by (simp add: aff2axcodes_def)
  have lps: "to_lps io_orientation as_reoriented uninitialised orig_img = Inr (orig_img, False)"
    using assms(1) by (rule to_lps_lps[where io_orientation = io_orientation])
  have xfm: "inv_ornt_aff (io_orientation (img_affine orig_img)) (img_shape orig_img)
      = Inr [[-1, 0, 0, real sx - 1], [0, -1, 0, real sy - 1], [0, 0, 1, 0], [0, 0, 0, 1]]"
    unfolding ornt assms(3) by (rule lps_ornt_xfm)
  have rescale: "\<And>atol. 0 \<le> atol
      \<Longrightarrow> allclose_vector atol (take 3 (img_zooms orig_img)) target_zooms"
    unfolding assms(5) by (rule allclose_vector_refl)
  have resize: "take 3 (img_shape orig_img) = target_shape"
    using assms(3,4) by simp
  have far: "\<not> allclose (1 / 100000000)
      (np_dot (img_affine orig_img)
         (np_dot [[-1, 0, 0, real sx - 1], [0, -1, 0, real sy - 1], [0, 0, 1, 0], [0, 0, 0, 1]]
            (np_eye 4)))
      (img_affine orig_img)"
    unfolding np_dot_eye4 assms(2) by (rule flipped_not_close[OF assms(6)])
  show ?thesis
    unfolding Conform_run_def bind_def lps
    by (simp add: xfm Let_def rescale resize far split: xyz_unit.split)
qed

text \<open>
  The image of 4 x 4 x 4 voxels of 2 mm in (L, P, S) orientation, conformed to its own
  zooms and shape: AssertionError.
\<close>

theorem Conform_lps_input_fails_assertion_witness:
  "aff2axcodes example_io_orientation (img_affine lps_image) = Inr [AxL, AxP, AxS]
   \<and> img_affine lps_image = [[-2, 0, 0, 6], [0, -2, 0, 6], [0, 0, 2, 0], [0, 0, 0, 1]]
   \<and> img_shape lps_image = [4, 4, 4]
   \<and> take 3 (img_zooms lps_image) = [2, 2, 2]
   \<and> 1 / 100000000 < \<bar>- 2 :: real\<bar>
   \<and> Conform_run example_io_orientation example_as_reoriented (0, 0) example_linalg_inv
        lps_image [2, 2, 2] [4, 4, 4] = Inl AssertionError"
proof -
  have h1: "aff2axcodes example_io_orientation (img_affine lps_image) = Inr [AxL, AxP, AxS]"
    by (simp add: aff2axcodes_def example_io_orientation_def lps_image_def ornt2axcodes_def
        ornt2axcode_def)
  have h2: "img_affine lps_image = [[-2, 0, 0, 6], [0, -2, 0, 6], [0, 0, 2, 0], [0, 0, 0, 1]]"
    by (simp add: lps_image_def)
  have h3: "img_shape lps_image = [4, 4, 4]" by (simp add: lps_image_def)
  have h4: "[4, 4, 4] = [4, 4, 4 :: nat]" by simp
  have h5: "take 3 (img_zooms lps_image) = [2, 2, 2]" by (simp add: lps_image_def)
  have h6: "1 / 100000000 < \<bar>- 2 :: real\<bar>" by simp
  show ?thesis
    using h1 h2 h3 h5 h6
      Conform_lps_input_fails_assertion
        [where io_orientation = example_io_orientation and orig_img = lps_image
           and as_reoriented = example_as_reoriented and uninitialised = "(0, 0)"
           and linalg_inv = example_linalg_inv, OF h1 h2 h3 h4 h5 h6]
    by simp
qed

text \<open>
  The same image in (R, A, S) orientation passes the assertion: it is reoriented by a
  flip of its first two axes, \<open>ornt_xfm\<close> is that flip, and the product of the affine
  and the transform is the affine of the reoriented image.
\<close>

lemma Conform_ras_input:
  "Conform_run example_io_orientation example_as_reoriented (0, 0) example_linalg_inv
     ras_image [2, 2, 2] [4, 4, 4]
   = Inr \<lparr> conform_transform = [[-1, 0, 0, 3], [0, -1, 0, 3], [0, 0, 1, 0], [0, 0, 0, 1]],
           conform_target_affine = [[-2, 0, 0, 6], [0, -2, 0, 6], [0, 0, 2, 0], [0, 0, 0, 1]],
           conform_new_file = True \<rparr>"
proof -
  have lps: "to_lps example_io_orientation example_as_reoriented (0, 0) ras_image
      = Inr (lps_image, True)"
    by (simp add: to_lps_def aff2axcodes_def example_io_orientation_def ras_image_def
        ornt2axcodes_def ornt2axcode_def ornt_transform_def axcodes2ornt_def
        example_as_reoriented_def)
  have xfm: "inv_ornt_aff (example_io_orientation (img_affine lps_image)) (img_shape ras_image)
      = Inr [[-1, 0, 0, 3], [0, -1, 0, 3], [0, 0, 1, 0], [0, 0, 0, 1]]"
    by (simp add: example_io_orientation_def lps_image_def ras_image_def inv_ornt_aff_def
        np_dot_def np_eye_def upt_rec Let_def)
  have close: "allclose (1 / 100000000)
      (np_dot (img_affine ras_image)
         (np_dot [[-1, 0, 0, 3], [0, -1, 0, 3], [0, 0, 1, 0], [0, 0, 0, 1]] (np_eye 4)))
      (img_affine lps_image)"
    unfolding np_dot_eye4
    by (simp add: ras_image_def lps_image_def allclose_def allclose_vector_def isclose_def
        np_dot_def upt_rec)
  have same: "allclose_vector (1 / 100) (take 3 (img_zooms lps_image)) [2, 2, 2]"
    "take 3 (img_shape lps_image) = [4, 4, 4]" "img_xyz_unit lps_image = Unit_mm"
    by (simp_all add: lps_image_def allclose_vector_def isclose_def)
  have target: "img_affine lps_image
      = [[-2, 0, 0, 6], [0, -2, 0, 6], [0, 0, 2, 0], [0, 0, 0, 1]]"
    by (simp add: lps_image_def)
  have "Conform_run example_io_orientation example_as_reoriented (0, 0) example_linalg_inv
     ras_image [2, 2, 2] [4, 4, 4]
   = Inr \<lparr> conform_transform
             = np_dot [[-1, 0, 0, 3], [0, -1, 0, 3], [0, 0, 1, 0], [0, 0, 0, 1]] (np_eye 4),
           conform_target_affine = img_affine lps_image,
           conform_new_file = True \<rparr>"
    unfolding Conform_run_def bind_def lps
    by (simp add: xfm Let_def same close)
  then show ?thesis unfolding np_dot_eye4 target .
qed

end
